theory Spec2Isabelle
  imports Main "HOL-Library.Word" "HOL-Library.Sublist"
begin

section \<open>JavaScript strings and values\<close>

text \<open>
  The form endpoint is a single request handler, \<^verbatim>\<open>exports.app\<close>, and one helper,
  \<^verbatim>\<open>escapeHtml\<close>. Two files carry it: \<^verbatim>\<open>src/functions/index.js\<close> and
  \<^verbatim>\<open>src/unnamed/part_000\<close>. Definitions that end in \<open>_index\<close> embed the first file,
  definitions that end in \<open>_part000\<close> the second; the POST validation is the same text in
  both files and is embedded once.

  A JavaScript string is a sequence of 16-bit code units: \<^verbatim>\<open>length\<close> counts code units,
  and \<^verbatim>\<open>trim\<close>, \<^verbatim>\<open>includes\<close> and \<^verbatim>\<open>replace\<close> work on them. A literal of the source is
  written \<open>js ''...''\<close>.
\<close>

type_synonym jsstring = "16 word list"

definition u16 :: "char \<Rightarrow> 16 word" where
  "u16 c = of_nat (of_char c)"

definition js :: "string \<Rightarrow> jsstring" where
  "js s = map u16 s"

text \<open>
  The values the handler meets: in a parsed form body (strings, arrays, nested objects), in
  a stored document (any of these, null, booleans, Firestore timestamps) and as the result
  of reading a property that is not there (\<^verbatim>\<open>undefined\<close>). A timestamp carries the instant
  its \<^verbatim>\<open>toDate()\<close> yields, in milliseconds since the epoch. JavaScript numbers are
  floating point and are not modelled.
\<close>

datatype jsval =
    JUndefined
  | JNull
  | JBool bool
  | JStr jsstring
  | JTimestamp int
  | JArr "jsval list"
  | JObj "(jsstring \<times> jsval) list"

type_synonym jsobject = "(jsstring \<times> jsval) list"

text \<open>
  An object is an association list in key order. A JavaScript object holds each key once;
  the list stands for the object whose property \<open>k\<close> is the first entry for \<open>k\<close>, so
  \<^verbatim>\<open>Object.keys\<close> lists each key once. Reading an absent property gives \<^verbatim>\<open>undefined\<close>.
\<close>

definition get_field :: "jsobject \<Rightarrow> jsstring \<Rightarrow> jsval" where
  "get_field obj k = (case map_of obj k of None \<Rightarrow> JUndefined | Some v \<Rightarrow> v)"

definition Object_keys :: "jsobject \<Rightarrow> jsstring list" where
  "Object_keys obj = remdups (map fst obj)"

text \<open>Truthiness, as \<^verbatim>\<open>!x\<close>, \<^verbatim>\<open>x ? a : b\<close> and \<^verbatim>\<open>x || y\<close> test it.\<close>

fun truthy :: "jsval \<Rightarrow> bool" where
  "truthy JUndefined = False"
| "truthy JNull = False"
| "truthy (JBool b) = b"
| "truthy (JStr s) = (s \<noteq> [])"
| "truthy (JTimestamp t) = True"
| "truthy (JArr xs) = True"
| "truthy (JObj kvs) = True"

definition js_or :: "jsval \<Rightarrow> jsval \<Rightarrow> jsval" where
  "js_or a b = (if truthy a then a else b)"

text \<open>\<^verbatim>\<open>Array.prototype.join\<close> on strings.\<close>

fun join :: "jsstring \<Rightarrow> jsstring list \<Rightarrow> jsstring" where
  "join sep [] = []"
| "join sep [x] = x"
| "join sep (x # y # ys) = x @ sep @ join sep (y # ys)"

text \<open>
  What the handler's \<^verbatim>\<open>try\<close> blocks catch: a \<^verbatim>\<open>TypeError\<close> of the JavaScript run time,
  or the rejection of a call to a store that cannot be reached.
\<close>

datatype js_error = TypeError | StoreUnavailable

text \<open>Evaluation in sequence: the first exception ends it.\<close>

definition and_then :: "js_error + 'a \<Rightarrow> ('a \<Rightarrow> js_error + 'b) \<Rightarrow> js_error + 'b" where
  "and_then r f = (case r of Inl err \<Rightarrow> Inl err | Inr x \<Rightarrow> f x)"

text \<open>
  The conversion a template literal applies to an interpolated value. A string is itself.
  An array is its elements, converted from left to right and joined by commas, with
  \<^verbatim>\<open>null\<close> and \<^verbatim>\<open>undefined\<close> elements empty. A timestamp and a map print through
  \<^verbatim>\<open>Object.prototype.toString\<close> as \<^verbatim>\<open>[object Object]\<close>; but a map with a key \<^verbatim>\<open>toString\<close>
  of its own hides that method behind a stored value, which is not callable, its
  \<^verbatim>\<open>valueOf\<close> returns the map itself, and the conversion throws a \<^verbatim>\<open>TypeError\<close>.
\<close>

fun js_String :: "jsval \<Rightarrow> js_error + jsstring"
  and element_strings :: "jsval list \<Rightarrow> js_error + jsstring list" where
  "js_String JUndefined = Inr (js ''undefined'')"
| "js_String JNull = Inr (js ''null'')"
| "js_String (JBool b) = Inr (if b then js ''true'' else js ''false'')"
| "js_String (JStr s) = Inr s"
| "js_String (JTimestamp t) = Inr (js ''[object Object]'')"
| "js_String (JArr xs) =
     (case element_strings xs of
        Inl err \<Rightarrow> Inl err
      | Inr texts \<Rightarrow> Inr (join (js '','') texts))"
| "js_String (JObj kvs) =
     (if List.member (map fst kvs) (js ''toString'') then Inl TypeError
      else Inr (js ''[object Object]''))"
| "element_strings [] = Inr []"
| "element_strings (x # xs) =
     (case (case x of JUndefined \<Rightarrow> Inr [] | JNull \<Rightarrow> Inr [] | _ \<Rightarrow> js_String x) of
        Inl err \<Rightarrow> Inl err
      | Inr text \<Rightarrow>
          (case element_strings xs of
             Inl err \<Rightarrow> Inl err
           | Inr texts \<Rightarrow> Inr (text # texts)))"

text \<open>
  \<^verbatim>\<open>String.prototype.trim\<close> removes white space and line terminators from both ends:
  TAB, LF, VT, FF, CR, SPACE, NBSP, U+1680, U+2000 to U+200A, U+2028, U+2029, U+202F,
  U+205F, U+3000 and U+FEFF.
\<close>

definition is_white_space :: "16 word \<Rightarrow> bool" where
  "is_white_space c =
     (c \<in> set [0x9, 0xA, 0xB, 0xC, 0xD, 0x20, 0xA0, 0x1680, 0x2028, 0x2029, 0x202F, 0x205F,
                0x3000, 0xFEFF]
      \<or> (0x2000 \<le> c \<and> c \<le> 0x200A))"

definition trim :: "jsstring \<Rightarrow> jsstring" where
  "trim s = rev (dropWhile is_white_space (rev (dropWhile is_white_space s)))"

text \<open>\<^verbatim>\<open>s.includes(sub)\<close>: \<open>sub\<close> occurs in \<open>s\<close> as a contiguous run.\<close>

fun js_includes :: "jsstring \<Rightarrow> jsstring \<Rightarrow> bool" where
  "js_includes [] sub = (sub = [])"
| "js_includes (x # xs) sub = (prefix sub (x # xs) \<or> js_includes xs sub)"

text \<open>
  \<^verbatim>\<open>s.replace(/c/g, r)\<close> for a one-character pattern \<open>c\<close> and a replacement \<open>r\<close> without
  \<^verbatim>\<open>$\<close>: every occurrence of \<open>c\<close> becomes \<open>r\<close>, left to right.
\<close>

definition replaceAll :: "16 word \<Rightarrow> jsstring \<Rightarrow> jsstring \<Rightarrow> jsstring" where
  "replaceAll c r s = concat (map (\<lambda>x. if x = c then r else [x]) s)"

section \<open>escapeHtml\<close>

text \<open>
  \<^verbatim>\<open>src/unnamed/part_000\<close>, lines 152 to 160: a value that is not a string is returned as
  it is; a string goes through five replacements, the ampersand first.
\<close>

definition escape_chain_part000 :: "jsstring \<Rightarrow> jsstring" where
  \<open>escape_chain_part000 unsafe =
     replaceAll (u16 CHR 0x27) (js ''&#039;'')
       (replaceAll (u16 CHR ''"'') (js ''&quot;'')
         (replaceAll (u16 CHR ''>'') (js ''&gt;'')
           (replaceAll (u16 CHR ''<'') (js ''&lt;'')
             (replaceAll (u16 CHR ''&'') (js ''&amp;'') unsafe))))\<close>

fun escapeHtml_part000 :: "jsval \<Rightarrow> jsval" where
  "escapeHtml_part000 (JStr unsafe) = JStr (escape_chain_part000 unsafe)"
| "escapeHtml_part000 unsafe = unsafe"

text \<open>
  \<^verbatim>\<open>src/functions/index.js\<close>, lines 199 to 207: the same chain, with replacement texts
  that end without a semicolon.
\<close>

definition escape_chain_index :: "jsstring \<Rightarrow> jsstring" where
  \<open>escape_chain_index unsafe =
     replaceAll (u16 CHR 0x27) (js ''&#039'')
       (replaceAll (u16 CHR ''"'') (js ''&quot'')
         (replaceAll (u16 CHR ''>'') (js ''&gt'')
           (replaceAll (u16 CHR ''<'') (js ''&lt'')
             (replaceAll (u16 CHR ''&'') (js ''&amp'') unsafe))))\<close>

fun escapeHtml_index :: "jsval \<Rightarrow> jsval" where
  "escapeHtml_index (JStr unsafe) = JStr (escape_chain_index unsafe)"
| "escapeHtml_index unsafe = unsafe"

text \<open>
  The escaping as the specification words it: one pass over the string in which each of
  the five characters becomes its entity and every other character stays.
\<close>

definition entity_spec :: "16 word \<Rightarrow> jsstring" where
  \<open>entity_spec c =
     (if c = u16 CHR ''&'' then js ''&amp;''
      else if c = u16 CHR ''<'' then js ''&lt;''
      else if c = u16 CHR ''>'' then js ''&gt;''
      else if c = u16 CHR ''"'' then js ''&quot;''
      else if c = u16 CHR 0x27 then js ''&#039;''
      else [c])\<close>

definition escapeHtml_spec :: "jsstring \<Rightarrow> jsstring" where
  "escapeHtml_spec s = concat (map entity_spec s)"

section \<open>Requests, responses and the submission store\<close>

text \<open>
  What the handler reads of a request: its method, the \<^verbatim>\<open>content-type\<close> header (absent
  or a string; \<^verbatim>\<open>req.get("content-type")\<close> and \<^verbatim>\<open>req.headers["content-type"]\<close> read the
  same header) and the body the platform has parsed into an object.
\<close>

record request =
  http_method :: jsstring
  content_type :: "jsstring option"
  body :: jsobject

text \<open>\<^verbatim>\<open>res.status(n).send(text)\<close>.\<close>

record response =
  status :: nat
  sent :: jsstring

text \<open>
  The Firestore collection \<^verbatim>\<open>submissions\<close>: its documents in insertion order, each an
  identifier and the document's data, and whether the service can be reached. A call to an
  unreachable store is rejected with \<open>StoreUnavailable\<close>.
\<close>

record doc =
  doc_id :: jsstring
  doc_data :: jsobject

record store =
  docs :: "doc list"
  online :: bool

text \<open>
  What the platform provides and the source does not define: Firestore's
  \<^verbatim>\<open>orderBy("timestamp", "desc")\<close> (which documents a query ordered on the field returns,
  and in which order), the identifier Firestore gives a new document, and the two date
  formats \<^verbatim>\<open>toISOString()\<close> and \<^verbatim>\<open>toLocaleString("en-US")\<close> of an instant.
\<close>

record env =
  orderByTimestampDesc :: "doc list \<Rightarrow> doc list"
  autoId :: "doc list \<Rightarrow> jsstring"
  toISOString :: "int \<Rightarrow> jsstring"
  toLocaleString_enUS :: "int \<Rightarrow> jsstring"

text \<open>\<^verbatim>\<open>db.collection("submissions").add(data)\<close>.\<close>

definition db_add :: "env \<Rightarrow> jsobject \<Rightarrow> store \<Rightarrow> js_error + store" where
  "db_add e data s =
     (if online s
      then Inr (s\<lparr>docs := docs s @ [\<lparr>doc_id = autoId e (docs s), doc_data = data\<rparr>]\<rparr>)
      else Inl StoreUnavailable)"

text \<open>\<^verbatim>\<open>db.collection("submissions").orderBy("timestamp", "desc").limit(n).get()\<close>.\<close>

definition db_get :: "env \<Rightarrow> nat \<Rightarrow> store \<Rightarrow> js_error + doc list" where
  "db_get e n s =
     (if online s then Inr (take n (orderByTimestampDesc e (docs s)))
      else Inl StoreUnavailable)"

text \<open>A loop body that may throw, run over a list: the first exception ends the loop.\<close>

fun try_map :: "('a \<Rightarrow> js_error + 'b) \<Rightarrow> 'a list \<Rightarrow> js_error + 'b list" where
  "try_map f [] = Inr []"
| "try_map f (x # xs) =
     (case f x of
        Inl err \<Rightarrow> Inl err
      | Inr y \<Rightarrow> (case try_map f xs of Inl err \<Rightarrow> Inl err | Inr ys \<Rightarrow> Inr (y # ys)))"

section \<open>POST: validation and insert\<close>

text \<open>
  Lines 16 to 21 of both files:
  \<^verbatim>\<open>if (!contentType || !contentType.includes("application/x-www-form-urlencoded"))\<close>
  rejects; the header passes when it is there, not empty and contains the media type.
\<close>

definition content_type_ok :: "jsstring option \<Rightarrow> bool" where
  "content_type_ok contentType =
     (case contentType of
        None \<Rightarrow> False
      | Some ct \<Rightarrow> ct \<noteq> [] \<and> js_includes ct (js ''application/x-www-form-urlencoded''))"

text \<open>
  \<^verbatim>\<open>if (!name || typeof name !== "string" || name.trim() === "")\<close> rejects. A value
  passes when it is a string, not empty, and not empty after trimming; the string is then
  what the later checks read.
\<close>

fun required_string :: "jsval \<Rightarrow> jsstring option" where
  "required_string (JStr s) = (if s = [] \<or> trim s = [] then None else Some s)"
| "required_string v = None"

text \<open>
  \<^verbatim>\<open>receivedFields.length !== allowedFields.length ||
  !receivedFields.every((field) => allowedFields.includes(field))\<close> rejects
  (\<^verbatim>\<open>Array.isArray(receivedFields)\<close> holds of every result of \<^verbatim>\<open>Object.keys\<close>).
\<close>

definition allowedFields :: "jsstring list" where
  "allowedFields = [js ''name'', js ''message'']"

definition unexpected_fields :: "jsstring list \<Rightarrow> bool" where
  "unexpected_fields receivedFields =
     (length receivedFields \<noteq> length allowedFields
      \<or> \<not> list_all (\<lambda>field. List.member allowedFields field) receivedFields)"

text \<open>
  The checks of lines 16 to 52 (\<^verbatim>\<open>index.js\<close>) and 16 to 54 (\<^verbatim>\<open>part_000\<close>) in the order
  of the source. The result is the message of the first \<^verbatim>\<open>res.status(400).send(...)\<close>
  reached, or the two strings \<^verbatim>\<open>name\<close> and \<^verbatim>\<open>message\<close> as received.
\<close>

definition post_validate :: "request \<Rightarrow> jsstring + (jsstring \<times> jsstring)" where
  \<open>post_validate req =
     (if \<not> content_type_ok (content_type req)
      then Inl (js ''Invalid request format. Expected URL-encoded data.'')
      else
        (case required_string (get_field (body req) (js ''name'')) of
           None \<Rightarrow> Inl (js ''Validation Error: \'name\' field is required and cannot be empty.'')
         | Some name \<Rightarrow>
             (case required_string (get_field (body req) (js ''message'')) of
                None \<Rightarrow>
                  Inl (js ''Validation Error: \'message\' field is required and cannot be empty.'')
              | Some message \<Rightarrow>
                  if length name > 100
                  then Inl (js ''Validation Error: \'name\' field must be 100 characters or less.'')
                  else if length message > 2000
                  then Inl (js ''Validation Error: \'message\' field must be 2000 characters or less.'')
                  else if unexpected_fields (Object_keys (body req))
                  then Inl (js ''Validation Error: Only \'name\' and \'message\' fields are allowed.'')
                  else Inr (name, message))))\<close>

text \<open>
  The record of lines 54 to 58 (56 to 60): both strings trimmed, and \<^verbatim>\<open>new Date()\<close>, the
  server's clock at the request, which Firestore stores as a timestamp.
\<close>

definition submission :: "int \<Rightarrow> jsstring \<Rightarrow> jsstring \<Rightarrow> jsobject" where
  "submission now name message =
     [(js ''name'', JStr (trim name)),
      (js ''message'', JStr (trim message)),
      (js ''timestamp'', JTimestamp now)]"

text \<open>
  The POST branch. The two files differ in the text of the success message only. An
  exception of the insert is caught and answered with 500. Calls of the logger leave no
  trace in the response or the store and are left out.
\<close>

definition post :: "jsstring \<Rightarrow> env \<Rightarrow> int \<Rightarrow> request \<Rightarrow> store \<Rightarrow> response \<times> store" where
  "post thanks e now req s =
     (case post_validate req of
        Inl msg \<Rightarrow> (\<lparr>status = 400, sent = msg\<rparr>, s)
      | Inr (name, message) \<Rightarrow>
          (case db_add e (submission now name message) s of
             Inl err \<Rightarrow>
               (\<lparr>status = 500, sent = js ''Server Error: Could not process your submission.''\<rparr>, s)
           | Inr s' \<Rightarrow> (\<lparr>status = 200, sent = thanks\<rparr>, s')))"

definition post_index :: "env \<Rightarrow> int \<Rightarrow> request \<Rightarrow> store \<Rightarrow> response \<times> store" where
  "post_index = post (js ''Thanks for your message! It will be recorded for all eternity.'')"

definition post_part000 :: "env \<Rightarrow> int \<Rightarrow> request \<Rightarrow> store \<Rightarrow> response \<times> store" where
  "post_part000 = post (js ''Thanks for writing your message!'')"

section \<open>GET: query and rendering\<close>

text \<open>
  \<^verbatim>\<open>x.toDate()\<close> as the handler calls it on a stored value: a Firestore timestamp gives
  its instant; on \<^verbatim>\<open>undefined\<close> and \<^verbatim>\<open>null\<close> the property read throws, on any other value
  \<^verbatim>\<open>toDate\<close> is not a function and the call throws.
\<close>

fun toDate :: "jsval \<Rightarrow> js_error + int" where
  "toDate (JTimestamp t) = Inr t"
| "toDate v = Inl TypeError"

subsection \<open>\<^verbatim>\<open>src/functions/index.js\<close>, lines 68 to 192\<close>

text \<open>
  The template literal of lines 87 to 94, with its four interpolated texts as arguments.
\<close>

definition block_template_index ::
  "jsstring \<Rightarrow> jsstring \<Rightarrow> jsstring \<Rightarrow> jsstring \<Rightarrow> jsstring" where
  \<open>block_template_index name isoString localized message =
     js ''\<newline>            <div class="submission">\<newline>              <p class="name">''
     @ name
     @ js ''</p>\<newline>              <time data-timestamp="''
     @ isoString
     @ js ''">\<newline>                ''
     @ localized
     @ js ''\<newline>              </time>\<newline>              <p class="message">''
     @ message
     @ js ''</p>\<newline>            </div>''\<close>

text \<open>
  The block of one document's data \<^verbatim>\<open>sub\<close>: \<^verbatim>\<open>escapeHtml(sub.name)\<close>,
  \<^verbatim>\<open>escapeHtml(sub.timestamp.toDate().toISOString())\<close>,
  \<^verbatim>\<open>escapeHtml(sub.timestamp.toDate().toLocaleString("en-US"))\<close> and
  \<^verbatim>\<open>escapeHtml(sub.message)\<close>, each evaluated and converted to a string by the template in
  this order; the first exception ends the block.
\<close>

definition submission_block_index :: "env \<Rightarrow> jsobject \<Rightarrow> js_error + jsstring" where
  "submission_block_index e sub =
     and_then (js_String (escapeHtml_index (get_field sub (js ''name'')))) (\<lambda>name.
     and_then (toDate (get_field sub (js ''timestamp''))) (\<lambda>d.
     and_then (js_String (escapeHtml_index (JStr (toISOString e d)))) (\<lambda>isoString.
     and_then (toDate (get_field sub (js ''timestamp''))) (\<lambda>d'.
     and_then (js_String (escapeHtml_index (JStr (toLocaleString_enUS e d')))) (\<lambda>localized.
     and_then (js_String (escapeHtml_index (get_field sub (js ''message'')))) (\<lambda>message.
     Inr (block_template_index name isoString localized message)))))))"

text \<open>
  Lines 82 to 96: the blocks of the snapshot's documents, joined, or the placeholder when
  the snapshot is empty. (The array \<^verbatim>\<open>submissions\<close> of lines 75 to 80 is only counted for
  the log.)
\<close>

definition submission_blocks_index :: "env \<Rightarrow> doc list \<Rightarrow> js_error + jsstring list" where
  "submission_blocks_index e snapshot = try_map (submission_block_index e) (map doc_data snapshot)"

definition submissionsHtml_index :: "env \<Rightarrow> doc list \<Rightarrow> js_error + jsstring" where
  "submissionsHtml_index e snapshot =
     (if length snapshot > 0
      then (case submission_blocks_index e snapshot of
              Inl err \<Rightarrow> Inl err
            | Inr blocks \<Rightarrow> Inr (join [] blocks))
      else Inr (js ''<p>No submissions yet.</p>''))"

text \<open>The page of lines 98 to 187, before and after \<^verbatim>\<open>${submissionsHtml}\<close>.\<close>

definition page_index_head :: string where
  \<open>page_index_head =
     ''\<newline>''
     @ ''<!DOCTYPE html>\<newline>''
     @ ''<html lang="en">\<newline>''
     @ ''  <head>\<newline>''
     @ ''    <meta charset="UTF-8">\<newline>''
     @ ''    <meta name="viewport" content="width=device-width, initial-scale=1.0">\<newline>''
     @ ''    <title>HotFX Form Hole</title>\<newline>''
     @ ''    <style>\<newline>''
     @ ''      body {\<newline>''
     @ ''        font-family: \'Helvetica Neue\', Helvetica, Arial, sans-serif;\<newline>''
     @ ''        line-height: 1.6;\<newline>''
     @ ''        padding: 20px;\<newline>''
     @ ''        background-color: #f4f4f4;\<newline>''
     @ ''        color: #333;\<newline>''
     @ ''      }\<newline>''
     @ ''\<newline>''
     @ ''      h1 {\<newline>''
     @ ''        color: black;\<newline>''
     @ ''        padding-bottom: 10px;\<newline>''
     @ ''      }\<newline>''
     @ ''\<newline>''
     @ ''      h1 img {\<newline>''
     @ ''        margin-right: 8px;\<newline>''
     @ ''        position: relative;\<newline>''
     @ ''        top: 20px;\<newline>''
     @ ''      }\<newline>''
     @ ''\<newline>''
     @ ''      .submission {\<newline>''
     @ ''        background-color: #fff;\<newline>''
     @ ''        padding: 15px;\<newline>''
     @ ''        margin-bottom: 15px;\<newline>''
     @ ''        box-shadow: 0 2px 4px rgba(0,0,0,0.1);\<newline>''
     @ ''        max-width: 800px;\<newline>''
     @ ''      }\<newline>''
     @ ''\<newline>''
     @ ''      .name {\<newline>''
     @ ''        font-weight: bold;\<newline>''
     @ ''        margin-bottom: 5px;\<newline>''
     @ ''      }\<newline>''
     @ ''\<newline>''
     @ ''      .message {\<newline>''
     @ ''        margin-bottom: 10px;\<newline>''
     @ ''        white-space: pre-wrap;\<newline>''
     @ ''      }\<newline>''
     @ ''\<newline>''
     @ ''      .timestamp {\<newline>''
     @ ''        color: #666;\<newline>''
     @ ''        font-size: 0.8em;\<newline>''
     @ ''      }\<newline>''
     @ ''\<newline>''
     @ ''      code {\<newline>''
     @ ''        font-family: Courier New, Courier, monospace;\<newline>''
     @ ''        font-size: 1.1em;\<newline>''
     @ ''      }\<newline>''
     @ ''      \<newline>''
     @ ''      a {\<newline>''
     @ ''        color: DodgerBlue;\<newline>''
     @ ''        text-decoration: none;\<newline>''
     @ ''      }\<newline>''
     @ ''\<newline>''
     @ ''      a:hover {\<newline>''
     @ ''        text-decoration: underline;\<newline>''
     @ ''      }\<newline>''
     @ ''\<newline>''
     @ ''      a:visited {\<newline>''
     @ ''        color: SlateBlue;\<newline>''
     @ ''      }\<newline>''
     @ ''    </style>\<newline>''
     @ ''    <script>\<newline>''
     @ ''      document.addEventListener(\'DOMContentLoaded\', function() {\<newline>''
     @ ''        document.querySelectorAll(\'time[data-timestamp]\').forEach(function(el) {\<newline>''
     @ ''          const date = new Date(el.getAttribute(\'data-timestamp\'))\<newline>''
     @ ''          if (!isNaN(date)) el.textContent = date.toLocaleString()\<newline>''
     @ ''        })\<newline>''
     @ ''      })\<newline>''
     @ ''    </script>\<newline>''
     @ ''  </head>\<newline>''
     @ ''  <body>\<newline>''
     @ ''    <h1>\<newline>''
     @ ''      <img width="200" src="https://static.hot.page/hotfx-logo.svg">\<newline>''
     @ ''      Form Hole\<newline>''
     @ ''    </h1>\<newline>''
     @ ''    <p>\<newline>''
     @ ''      This is a demo for the <code>&lt;hotfx-form&gt;</code> custom element.\<newline>''
     @ ''      <a href="https://fx.hot.page/form">Read more</a> or\<newline>''
     @ ''      <a href="https://github.com/hot-page/form-hole">view the source.</a>\<newline>''
     @ ''    </p>\<newline>''
     @ ''    ''\<close>

definition page_index_tail :: string where
  \<open>page_index_tail =
     ''\<newline>''
     @ ''  </body>\<newline>''
     @ ''</html>''\<close>

definition LIMIT_index :: nat where
  "LIMIT_index = 500"

definition get_index :: "env \<Rightarrow> store \<Rightarrow> response \<times> store" where
  "get_index e s =
     (case db_get e LIMIT_index s of
        Inl err \<Rightarrow> (\<lparr>status = 500, sent = js ''Server Error: Could not retrieve submissions.''\<rparr>, s)
      | Inr snapshot \<Rightarrow>
          (case submissionsHtml_index e snapshot of
             Inl err \<Rightarrow>
               (\<lparr>status = 500, sent = js ''Server Error: Could not retrieve submissions.''\<rparr>, s)
           | Inr submissionsHtml \<Rightarrow>
               (\<lparr>status = 200,
                 sent = js page_index_head @ submissionsHtml @ js page_index_tail\<rparr>, s)))"

definition app_index :: "env \<Rightarrow> int \<Rightarrow> request \<Rightarrow> store \<Rightarrow> response \<times> store" where
  "app_index e now req s =
     (if http_method req = js ''POST'' then post_index e now req s
      else if http_method req = js ''GET'' then get_index e s
      else (\<lparr>status = 405,
             sent = js ''Method Not Allowed. Only GET and POST are supported.''\<rparr>, s))"

subsection \<open>\<^verbatim>\<open>src/unnamed/part_000\<close>, lines 70 to 145\<close>

text \<open>Lines 80 to 82: \<^verbatim>\<open>data.timestamp ? data.timestamp.toDate().toLocaleString("en-US") : "N/A"\<close>.\<close>

definition formattedTimestamp :: "env \<Rightarrow> jsval \<Rightarrow> js_error + jsstring" where
  "formattedTimestamp e ts =
     (if truthy ts
      then (case toDate ts of Inl err \<Rightarrow> Inl err | Inr d \<Rightarrow> Inr (toLocaleString_enUS e d))
      else Inr (js ''N/A''))"

text \<open>Lines 83 to 88: the object pushed for one document. It has four properties.\<close>

definition submission_of_doc :: "env \<Rightarrow> doc \<Rightarrow> js_error + jsobject" where
  "submission_of_doc e d =
     (let data = doc_data d in
      case formattedTimestamp e (get_field data (js ''timestamp'')) of
        Inl err \<Rightarrow> Inl err
      | Inr ft \<Rightarrow>
          Inr [(js ''id'', JStr (doc_id d)),
               (js ''name'', js_or (get_field data (js ''name'')) (JStr (js ''N/A''))),
               (js ''message'', js_or (get_field data (js ''message'')) (JStr (js ''N/A''))),
               (js ''timestamp'', JStr ft)])"

text \<open>
  The template literal of lines 97 to 103, with its four interpolated texts as arguments.
\<close>

definition block_template_part000 ::
  "jsstring \<Rightarrow> jsstring \<Rightarrow> jsstring \<Rightarrow> jsstring \<Rightarrow> jsstring" where
  \<open>block_template_part000 name rawTimestamp timestamp message =
     js ''\<newline>      <div class="submission">\<newline>        <p class="name">''
     @ name
     @ js ''</p>\<newline>        <p class="timestamp" data-timestamp="''
     @ rawTimestamp
     @ js ''">''
     @ timestamp
     @ js ''</p>\<newline>        <p class="message">''
     @ message
     @ js ''</p>\<newline>      </div>\<newline>        ''\<close>

text \<open>
  The block of one pushed object \<^verbatim>\<open>sub\<close>: \<^verbatim>\<open>escapeHtml(sub.name)\<close>,
  \<^verbatim>\<open>sub.rawTimestamp || ""\<close>, \<^verbatim>\<open>escapeHtml(sub.timestamp)\<close> and
  \<^verbatim>\<open>escapeHtml(sub.message)\<close>, each evaluated and converted to a string by the template in
  this order; the first exception ends the block.
\<close>

definition submission_block_part000 :: "jsobject \<Rightarrow> js_error + jsstring" where
  "submission_block_part000 sub =
     and_then (js_String (escapeHtml_part000 (get_field sub (js ''name'')))) (\<lambda>name.
     and_then (js_String (js_or (get_field sub (js ''rawTimestamp'')) (JStr []))) (\<lambda>rawTimestamp.
     and_then (js_String (escapeHtml_part000 (get_field sub (js ''timestamp'')))) (\<lambda>timestamp.
     and_then (js_String (escapeHtml_part000 (get_field sub (js ''message'')))) (\<lambda>message.
     Inr (block_template_part000 name rawTimestamp timestamp message)))))"

text \<open>
  Lines 77 to 106: the loop over the snapshot, which pushes one object for each document,
  then one block for each object, joined, or the placeholder when there is no object.
\<close>

definition submissions_part000 :: "env \<Rightarrow> doc list \<Rightarrow> js_error + jsobject list" where
  "submissions_part000 e snapshot = try_map (submission_of_doc e) snapshot"

definition submission_blocks_part000 :: "env \<Rightarrow> doc list \<Rightarrow> js_error + jsstring list" where
  "submission_blocks_part000 e snapshot =
     and_then (submissions_part000 e snapshot) (try_map submission_block_part000)"

definition submissionsHtml_part000 :: "env \<Rightarrow> doc list \<Rightarrow> js_error + jsstring" where
  "submissionsHtml_part000 e snapshot =
     (case submissions_part000 e snapshot of
        Inl err \<Rightarrow> Inl err
      | Inr submissions \<Rightarrow>
          if length submissions > 0
          then (case try_map submission_block_part000 submissions of
                  Inl err \<Rightarrow> Inl err
                | Inr blocks \<Rightarrow> Inr (join [] blocks))
          else Inr (js ''<p>No submissions yet.</p>''))"

text \<open>The page of lines 108 to 140, before and after \<^verbatim>\<open>${submissionsHtml}\<close>.\<close>

definition page_part000_head :: string where
  \<open>page_part000_head =
     ''\<newline>''
     @ ''<!DOCTYPE html>\<newline>''
     @ ''<html lang="en">\<newline>''
     @ ''  <head>\<newline>''
     @ ''    <meta charset="UTF-8">\<newline>''
     @ ''    <meta name="viewport" content="width=device-width, initial-scale=1.0">\<newline>''
     @ ''    <title>Submissions</title>\<newline>''
     @ ''    <style>\<newline>''
     @ ''      body { font-family: sans-serif; line-height: 1.6; padding: 20px; background-color: #f4f4f4; color: #333; }\<newline>''
     @ ''      h1 { color: #555; border-bottom: 2px solid #eee; padding-bottom: 10px; }\<newline>''
     @ ''      .submission { background-color: #fff; padding: 15px; margin-bottom: 15px; box-shadow: 0 2px 4px rgba(0,0,0,0.1); }\<newline>''
     @ ''      .name { font-weight: bold; margin-bottom: 5px; }\<newline>''
     @ ''      .message { margin-bottom: 10px; }\<newline>''
     @ ''      .timestamp { color: #666; font-size: 0.8em; margin: 0; }\<newline>''
     @ ''    </style>\<newline>''
     @ ''    <script>\<newline>''
     @ ''      document.addEventListener(\'DOMContentLoaded\', function() {\<newline>''
     @ ''        // Format all timestamps based on user\'s browser timezone\<newline>''
     @ ''        document.querySelectorAll(\'.timestamp[data-timestamp]\').forEach(function(el) {\<newline>''
     @ ''          const timestamp = parseInt(el.getAttribute(\'data-timestamp\'));\<newline>''
     @ ''          if (timestamp) {\<newline>''
     @ ''            const date = new Date(timestamp);\<newline>''
     @ ''            el.textContent = date.toLocaleString();\<newline>''
     @ ''          }\<newline>''
     @ ''        });\<newline>''
     @ ''      });\<newline>''
     @ ''    </script>\<newline>''
     @ ''  </head>\<newline>''
     @ ''  <body>\<newline>''
     @ ''    <h1>HotFX Form Hole</h1>\<newline>''
     @ ''    ''\<close>

definition page_part000_tail :: string where
  \<open>page_part000_tail =
     ''\<newline>''
     @ ''  </body>\<newline>''
     @ ''</html>''\<close>

definition LIMIT_part000 :: nat where
  "LIMIT_part000 = 50"

definition get_part000 :: "env \<Rightarrow> store \<Rightarrow> response \<times> store" where
  "get_part000 e s =
     (case db_get e LIMIT_part000 s of
        Inl err \<Rightarrow> (\<lparr>status = 500, sent = js ''Server Error: Could not retrieve submissions.''\<rparr>, s)
      | Inr snapshot \<Rightarrow>
          (case submissionsHtml_part000 e snapshot of
             Inl err \<Rightarrow>
               (\<lparr>status = 500, sent = js ''Server Error: Could not retrieve submissions.''\<rparr>, s)
           | Inr submissionsHtml \<Rightarrow>
               (\<lparr>status = 200,
                 sent = js page_part000_head @ submissionsHtml @ js page_part000_tail\<rparr>, s)))"

definition app_part000 :: "env \<Rightarrow> int \<Rightarrow> request \<Rightarrow> store \<Rightarrow> response \<times> store" where
  "app_part000 e now req s =
     (if http_method req = js ''POST'' then post_part000 e now req s
      else if http_method req = js ''GET'' then get_part000 e s
      else (\<lparr>status = 405,
             sent = js ''Method Not Allowed. Only GET and POST are supported.''\<rparr>, s))"

section \<open>The validation contract, as the specification words it\<close>

text \<open>
  The specification lists six checks in a fixed order, each an independent predicate of
  the request with a message of its own: the content type is declared (a substring match
  on the header); \<^verbatim>\<open>name\<close>, then \<^verbatim>\<open>message\<close>, is present, a string and not empty after
  trimming; \<^verbatim>\<open>name\<close> has at most 100 characters as received, \<^verbatim>\<open>message\<close> at most 2000;
  the set of field names of the body is exactly \<^verbatim>\<open>{name, message}\<close>. The first check that
  fails decides the response.
\<close>

datatype check =
  ContentType | NamePresence | MessagePresence | NameLength | MessageLength | FieldSet

definition validation_order :: "check list" where
  "validation_order =
     [ContentType, NamePresence, MessagePresence, NameLength, MessageLength, FieldSet]"

fun fails :: "check \<Rightarrow> request \<Rightarrow> bool" where
  "fails ContentType req =
     (case content_type req of
        None \<Rightarrow> True
      | Some ct \<Rightarrow> \<not> js_includes ct (js ''application/x-www-form-urlencoded''))"
| "fails NamePresence req =
     (case get_field (body req) (js ''name'') of JStr s \<Rightarrow> trim s = [] | _ \<Rightarrow> True)"
| "fails MessagePresence req =
     (case get_field (body req) (js ''message'') of JStr s \<Rightarrow> trim s = [] | _ \<Rightarrow> True)"
| "fails NameLength req =
     (case get_field (body req) (js ''name'') of JStr s \<Rightarrow> length s > 100 | _ \<Rightarrow> False)"
| "fails MessageLength req =
     (case get_field (body req) (js ''message'') of JStr s \<Rightarrow> length s > 2000 | _ \<Rightarrow> False)"
| "fails FieldSet req = (set (Object_keys (body req)) \<noteq> {js ''name'', js ''message''})"

fun error_message :: "check \<Rightarrow> jsstring" where
  \<open>error_message ContentType = js ''Invalid request format. Expected URL-encoded data.''\<close>
| \<open>error_message NamePresence =
     js ''Validation Error: \'name\' field is required and cannot be empty.''\<close>
| \<open>error_message MessagePresence =
     js ''Validation Error: \'message\' field is required and cannot be empty.''\<close>
| \<open>error_message NameLength =
     js ''Validation Error: \'name\' field must be 100 characters or less.''\<close>
| \<open>error_message MessageLength =
     js ''Validation Error: \'message\' field must be 2000 characters or less.''\<close>
| \<open>error_message FieldSet =
     js ''Validation Error: Only \'name\' and \'message\' fields are allowed.''\<close>

definition first_failure :: "request \<Rightarrow> check option" where
  "first_failure req = find (\<lambda>c. fails c req) validation_order"

section \<open>Example requests and stores\<close>

text \<open>
  An environment to run the handler in: the query returns the documents whose
  \<^verbatim>\<open>timestamp\<close> is a timestamp, latest first, then the documents whose \<^verbatim>\<open>timestamp\<close> holds
  another value, and leaves out those without the field; a new document gets an
  identifier that grows with the collection; the two date formats are fixed texts, those
  of the epoch on a server in UTC.
\<close>

fun instant :: "doc \<Rightarrow> int" where
  "instant d = (case get_field (doc_data d) (js ''timestamp'') of JTimestamp t \<Rightarrow> t | _ \<Rightarrow> 0)"

fun has_instant :: "doc \<Rightarrow> bool" where
  "has_instant d =
     (case get_field (doc_data d) (js ''timestamp'') of JTimestamp t \<Rightarrow> True | _ \<Rightarrow> False)"

definition example_env :: env where
  "example_env =
     \<lparr>orderByTimestampDesc =
        (\<lambda>ds. rev (sort_key instant (filter has_instant ds))
              @ filter (\<lambda>d. get_field (doc_data d) (js ''timestamp'') \<noteq> JUndefined
                           \<and> \<not> has_instant d) ds),
      autoId = (\<lambda>ds. js ''doc'' @ replicate (length ds) (u16 CHR ''+'')),
      toISOString = (\<lambda>t. js ''1970-01-01T00:00:00.000Z''),
      toLocaleString_enUS = (\<lambda>t. js ''1/1/1970, 12:00:00 AM'')\<rparr>"

definition empty_store :: store where
  "empty_store = \<lparr>docs = [], online = True\<rparr>"

text \<open>
  A reachable store holding documents with the given data. No response reads an
  identifier; every document of an example store has the same one.
\<close>

definition store_of :: "jsobject list \<Rightarrow> store" where
  "store_of datas =
     \<lparr>docs = map (\<lambda>data. \<lparr>doc_id = js ''doc'', doc_data = data\<rparr>) datas, online = True\<rparr>"

definition form_post :: "jsobject \<Rightarrow> request" where
  "form_post kvs =
     \<lparr>http_method = js ''POST'',
      content_type = Some (js ''application/x-www-form-urlencoded''),
      body = kvs\<rparr>"

definition get_request :: request where
  "get_request = \<lparr>http_method = js ''GET'', content_type = None, body = []\<rparr>"

text \<open>The string a value is, when it is one.\<close>

fun string_of :: "jsval \<Rightarrow> jsstring" where
  "string_of (JStr s) = s"
| "string_of v = []"

text \<open>A name of 101 characters as received: a space, then a hundred letters.\<close>

definition padded_name :: jsstring where
  "padded_name = u16 CHR '' '' # replicate 100 (u16 CHR ''a'')"

definition blank_post :: request where
  "blank_post = form_post [(js ''name'', JStr (js ''   '')), (js ''message'', JStr (js ''''))]"

text \<open>A valid form, and a store that cannot be reached.\<close>

definition ada_post :: request where
  "ada_post =
     form_post [(js ''name'', JStr (js '' Ada '')), (js ''message'', JStr (js ''hello''))]"

definition offline_store :: store where
  "offline_store = \<lparr>docs = [], online = False\<rparr>"

definition extra_field_post :: request where
  "extra_field_post =
     form_post [(js ''name'', JStr (js ''Ada'')), (js ''message'', JStr (js ''hello'')),
                (js ''extra'', JStr (js ''x''))]"

definition ada_doc :: jsobject where
  "ada_doc = [(js ''name'', JStr (js ''Ada'')), (js ''message'', JStr (js ''hello'')),
              (js ''timestamp'', JTimestamp 0)]"

definition nameless_doc :: jsobject where
  "nameless_doc = [(js ''message'', JStr (js ''hello'')), (js ''timestamp'', JTimestamp 0)]"

definition undated_doc :: jsobject where
  "undated_doc = [(js ''name'', JStr (js ''Ada'')), (js ''message'', JStr (js ''hello'')),
                  (js ''timestamp'', JNull)]"

definition misdated_doc :: jsobject where
  "misdated_doc = [(js ''name'', JStr (js ''Ada'')), (js ''message'', JStr (js ''hello'')),
                   (js ''timestamp'', JStr (js ''yesterday''))]"

definition nameless_misdated_doc :: jsobject where
  "nameless_misdated_doc =
     [(js ''message'', JStr (js ''hello'')), (js ''timestamp'', JStr (js ''yesterday''))]"

text \<open>Documents holding a map with a key \<^verbatim>\<open>toString\<close>, which no template can print.\<close>

definition unprintable_undated_doc :: jsobject where
  "unprintable_undated_doc =
     [(js ''name'', JObj [(js ''toString'', JStr (js ''x''))]),
      (js ''message'', JStr (js ''hello'')), (js ''timestamp'', JNull)]"

definition unprintable_nameless_doc :: jsobject where
  "unprintable_nameless_doc =
     [(js ''message'', JObj [(js ''toString'', JStr (js ''x''))]),
      (js ''timestamp'', JTimestamp 0)]"

definition offline_store_of :: "jsobject list \<Rightarrow> store" where
  "offline_store_of datas =
     \<lparr>docs = map (\<lambda>data. \<lparr>doc_id = js ''doc'', doc_data = data\<rparr>) datas, online = False\<rparr>"

definition crowded_store :: store where
  "crowded_store = store_of (replicate 501 ada_doc)"

definition html_get_request :: request where
  "html_get_request = \<lparr>http_method = js ''GET'', content_type = Some (js ''text/html''),
                        body = []\<rparr>"

section \<open>What a block of \<^verbatim>\<open>part_000\<close> shows\<close>

text \<open>
  A stored timestamp that \<^verbatim>\<open>part_000\<close> formats without an exception: a Firestore
  timestamp, or a value that is falsy (\<^verbatim>\<open>undefined\<close> for a missing field, \<^verbatim>\<open>null\<close>,
  \<^verbatim>\<open>false\<close>, the empty string).
\<close>

fun absent_or_timestamp :: "jsval \<Rightarrow> bool" where
  "absent_or_timestamp (JTimestamp t) = True"
| "absent_or_timestamp v = (\<not> truthy v)"

text \<open>
  A value that a template converts to text without an exception. Every string is one,
  and so is every falsy value.
\<close>

definition printable :: "jsval \<Rightarrow> bool" where
  "printable v = (case js_String v of Inl err \<Rightarrow> False | Inr text \<Rightarrow> True)"

text \<open>A document that \<^verbatim>\<open>part_000\<close> renders without an exception.\<close>

definition renders_part000 :: "doc \<Rightarrow> bool" where
  "renders_part000 d =
     (absent_or_timestamp (get_field (doc_data d) (js ''timestamp''))
      \<and> printable (get_field (doc_data d) (js ''name''))
      \<and> printable (get_field (doc_data d) (js ''message'')))"

text \<open>
  The text interpolated for a stored name or message, \<^verbatim>\<open>escapeHtml(data.name || "N/A")\<close>,
  and for a stored timestamp, \<^verbatim>\<open>escapeHtml(formattedTimestamp)\<close>, when there is no
  exception.
\<close>

definition shown_field_part000 :: "jsval \<Rightarrow> jsstring" where
  "shown_field_part000 v =
     (case js_String (escapeHtml_part000 (js_or v (JStr (js ''N/A'')))) of
        Inl err \<Rightarrow> []
      | Inr text \<Rightarrow> text)"

definition shown_timestamp_part000 :: "env \<Rightarrow> jsval \<Rightarrow> jsstring" where
  "shown_timestamp_part000 e ts =
     (case formattedTimestamp e ts of
        Inl err \<Rightarrow> []
      | Inr ft \<Rightarrow> escape_chain_part000 ft)"

section \<open>Counting blocks in a page\<close>

text \<open>
  Every block of either file opens with the same tag. The number of places where that
  tag stands in a text is the number of blocks a browser finds in it.
\<close>

fun occurrences :: "jsstring \<Rightarrow> jsstring \<Rightarrow> nat" where
  "occurrences pat [] = (if pat = [] then 1 else 0)"
| "occurrences pat (x # xs) = (if prefix pat (x # xs) then 1 else 0) + occurrences pat xs"

definition block_marker :: jsstring where
  \<open>block_marker = js ''<div class="submission">''\<close>

text \<open>A document as the POST branch writes it: its name and its message are strings.\<close>

fun is_string :: "jsval \<Rightarrow> bool" where
  "is_string (JStr s) = True"
| "is_string v = False"

definition stored_as_strings :: "doc \<Rightarrow> bool" where
  "stored_as_strings d =
     (is_string (get_field (doc_data d) (js ''name''))
      \<and> is_string (get_field (doc_data d) (js ''message'')))"

section \<open>Properties of escapeHtml\<close>

lemma replaceAll_Nil: "replaceAll c r [] = []"
  by (simp add: replaceAll_def)

lemma replaceAll_Cons:
  "replaceAll c r (x # xs) = (if x = c then r else [x]) @ replaceAll c r xs"
  by (simp add: replaceAll_def)

lemma replaceAll_append: "replaceAll c r (xs @ ys) = replaceAll c r xs @ replaceAll c r ys"
  by (simp add: replaceAll_def)

text \<open>
  A character is absent after a replacement when the replacement text does not hold it
  and it is the character replaced, or was absent before.
\<close>

lemma notin_replaceAll:
  "x \<notin> set r \<Longrightarrow> x = c \<or> x \<notin> set s \<Longrightarrow> x \<notin> set (replaceAll c r s)"
  by (auto simp: replaceAll_def split: if_splits)

lemma escape_chain_part000_append:
  "escape_chain_part000 (xs @ ys) = escape_chain_part000 xs @ escape_chain_part000 ys"
  by (simp add: escape_chain_part000_def replaceAll_append)

lemma escape_chain_part000_single: "escape_chain_part000 [c] = entity_spec c"
  by (simp add: escape_chain_part000_def entity_spec_def replaceAll_Cons replaceAll_Nil
      js_def u16_def)

text \<open>
  In \<^verbatim>\<open>part_000\<close> the chain of five replacements is the one-pass escaping of the
  specification: no entity written by one replacement is touched by a later one.
\<close>

lemma escape_chain_part000_spec: "escape_chain_part000 s = escapeHtml_spec s"
proof (induction s)
  case Nil
  show ?case
    by (simp add: escape_chain_part000_def escapeHtml_spec_def replaceAll_Nil)
next
  case (Cons c s)
  have "escape_chain_part000 (c # s) = escape_chain_part000 [c] @ escape_chain_part000 s"
    using escape_chain_part000_append [of "[c]" s] by simp
  then show ?case
    by (simp add: Cons.IH escape_chain_part000_single escapeHtml_spec_def)
qed

theorem escapeHtml_part000_refines_spec:
  "escapeHtml_part000 (JStr s) = JStr (escapeHtml_spec s)"
  by (simp add: escape_chain_part000_spec)

lemma special_notin_chain_index:
  \<open>u16 CHR ''<'' \<notin> set (escape_chain_index s)\<close>
  \<open>u16 CHR ''>'' \<notin> set (escape_chain_index s)\<close>
  \<open>u16 CHR ''"'' \<notin> set (escape_chain_index s)\<close>
  \<open>u16 CHR 0x27 \<notin> set (escape_chain_index s)\<close>
  unfolding escape_chain_index_def
  by (intro notin_replaceAll; simp add: js_def u16_def)+

lemma special_notin_chain_part000:
  \<open>u16 CHR ''<'' \<notin> set (escape_chain_part000 s)\<close>
  \<open>u16 CHR ''>'' \<notin> set (escape_chain_part000 s)\<close>
  \<open>u16 CHR ''"'' \<notin> set (escape_chain_part000 s)\<close>
  \<open>u16 CHR 0x27 \<notin> set (escape_chain_part000 s)\<close>
  unfolding escape_chain_part000_def
  by (intro notin_replaceAll; simp add: js_def u16_def)+

text \<open>
  C3. The specification's escaping writes each entity with its closing semicolon
  (\<^verbatim>\<open>&amp;\<close>, \<^verbatim>\<open>&lt;\<close>, \<^verbatim>\<open>&gt;\<close>, \<^verbatim>\<open>&quot;\<close>, \<^verbatim>\<open>&#039;\<close>). The \<^verbatim>\<open>escapeHtml\<close> of
  \<^verbatim>\<open>src/functions/index.js\<close> does not: on the string \<^verbatim>\<open>&\<close> it returns \<^verbatim>\<open>&amp\<close>, and on
  \<^verbatim>\<open>'5\<close> it returns \<^verbatim>\<open>&#0395\<close>, in which the digit of the input has become part of the
  character reference. Neither is the result of the specification's escaping.
\<close>

theorem escapeHtml_index_omits_semicolon:
  \<open>escapeHtml_index (JStr (js ''&'')) = JStr (js ''&amp'')
   \<and> escapeHtml_index (JStr (js ''&'')) \<noteq> JStr (escapeHtml_spec (js ''&''))
   \<and> escapeHtml_index (JStr (js ''\'5'')) = JStr (js ''&#0395'')
   \<and> escapeHtml_index (JStr (js ''\'5'')) \<noteq> JStr (escapeHtml_spec (js ''\'5''))\<close>
  by (simp add: escape_chain_index_def escapeHtml_spec_def entity_spec_def replaceAll_Cons
      replaceAll_Nil js_def u16_def)

text \<open>
  C9. For every input string, the result of \<^verbatim>\<open>escapeHtml\<close> is a string that holds none of
  the characters \<^verbatim>\<open><\<close>, \<^verbatim>\<open>>\<close>, \<^verbatim>\<open>"\<close> and \<^verbatim>\<open>'\<close>, in \<^verbatim>\<open>index.js\<close> (whose entities end
  without a semicolon) and in \<^verbatim>\<open>part_000\<close> alike.
\<close>

theorem escapeHtml_output_has_no_markup_characters:
  \<open>(\<exists>t. escapeHtml_index (JStr s) = JStr t
        \<and> u16 CHR ''<'' \<notin> set t \<and> u16 CHR ''>'' \<notin> set t
        \<and> u16 CHR ''"'' \<notin> set t \<and> u16 CHR 0x27 \<notin> set t)
   \<and> (\<exists>t. escapeHtml_part000 (JStr s) = JStr t
        \<and> u16 CHR ''<'' \<notin> set t \<and> u16 CHR ''>'' \<notin> set t
        \<and> u16 CHR ''"'' \<notin> set t \<and> u16 CHR 0x27 \<notin> set t)\<close>
proof -
  have index: "escapeHtml_index (JStr s) = JStr (escape_chain_index s)"
    by simp
  have part000: "escapeHtml_part000 (JStr s) = JStr (escape_chain_part000 s)"
    by simp
  show ?thesis
    unfolding index part000
    using special_notin_chain_index [of s] special_notin_chain_part000 [of s]
    by blast
qed

section \<open>Properties of the POST branch\<close>

subsection \<open>The code's checks are the specification's checks\<close>

lemma trim_Nil: "trim [] = []"
  by (simp add: trim_def)

lemma content_type_ok_iff: "content_type_ok (content_type req) \<longleftrightarrow> \<not> fails ContentType req"
  by (cases "content_type req") (auto simp: content_type_ok_def js_def)

lemma name_neq_message: "js ''name'' \<noteq> js ''message''"
  by (simp add: js_def)

lemma two_distinct_members:
  assumes "a \<noteq> b" "distinct xs"
  shows "(length xs = 2 \<and> list_all (\<lambda>x. List.member [a, b] x) xs) \<longleftrightarrow> set xs = {a, b}"
proof
  assume l: "length xs = 2 \<and> list_all (\<lambda>x. List.member [a, b] x) xs"
  then obtain x y where xs: "xs = [x, y]"
    by (cases xs; cases "tl xs"; auto)
  with l assms show "set xs = {a, b}"
    by auto
next
  assume s: "set xs = {a, b}"
  have "length xs = card (set xs)"
    using assms(2) by (simp add: distinct_card)
  also have "\<dots> = 2"
    using s assms(1) by simp
  finally show "length xs = 2 \<and> list_all (\<lambda>x. List.member [a, b] x) xs"
    using s by (auto simp: list_all_iff)
qed

lemma unexpected_fields_iff: "unexpected_fields (Object_keys (body req)) \<longleftrightarrow> fails FieldSet req"
  using two_distinct_members [OF name_neq_message, of "Object_keys (body req)"]
  by (auto simp: unexpected_fields_def allowedFields_def Object_keys_def)

lemma first_failure_unfold:
  "first_failure req =
     (if fails ContentType req then Some ContentType
      else if fails NamePresence req then Some NamePresence
      else if fails MessagePresence req then Some MessagePresence
      else if fails NameLength req then Some NameLength
      else if fails MessageLength req then Some MessageLength
      else if fails FieldSet req then Some FieldSet
      else None)"
  by (simp add: first_failure_def validation_order_def del: fails.simps)

lemma post_validate_unfold:
  "post_validate req =
     (if fails ContentType req then Inl (error_message ContentType)
      else if fails NamePresence req then Inl (error_message NamePresence)
      else if fails MessagePresence req then Inl (error_message MessagePresence)
      else if fails NameLength req then Inl (error_message NameLength)
      else if fails MessageLength req then Inl (error_message MessageLength)
      else if fails FieldSet req then Inl (error_message FieldSet)
      else Inr (string_of (get_field (body req) (js ''name'')),
                string_of (get_field (body req) (js ''message''))))"
proof -
  let ?n = "get_field (body req) (js ''name'')"
  let ?m = "get_field (body req) (js ''message'')"
  have n: "required_string ?n = (if fails NamePresence req then None else Some (string_of ?n))"
    by (cases ?n) (simp_all add: trim_Nil)
  have m: "required_string ?m = (if fails MessagePresence req then None else Some (string_of ?m))"
    by (cases ?m) (simp_all add: trim_Nil)
  have nl: "\<not> fails NamePresence req \<Longrightarrow> (100 < length (string_of ?n)) = fails NameLength req"
    by (cases ?n) simp_all
  have ml: "\<not> fails MessagePresence req \<Longrightarrow> (2000 < length (string_of ?m)) = fails MessageLength req"
    by (cases ?m) simp_all
  show ?thesis
    unfolding post_validate_def
    by (simp add: n m nl ml content_type_ok_iff unexpected_fields_iff del: fails.simps)
qed

lemma post_validate_Some:
  "first_failure req = Some c \<Longrightarrow> post_validate req = Inl (error_message c)"
  unfolding first_failure_unfold post_validate_unfold
  by (simp del: fails.simps error_message.simps split: if_splits)

lemma post_validate_None:
  "first_failure req = None \<Longrightarrow>
     post_validate req = Inr (string_of (get_field (body req) (js ''name'')),
                string_of (get_field (body req) (js ''message'')))"
  unfolding first_failure_unfold post_validate_unfold
  by (simp del: fails.simps error_message.simps split: if_splits)

lemma post_first_failure_Some:
  "first_failure req = Some c \<Longrightarrow>
     post thanks e now req s = (\<lparr>status = 400, sent = error_message c\<rparr>, s)"
  by (simp add: post_def post_validate_Some)

lemma post_first_failure_None:
  assumes "first_failure req = None" and "online s"
  shows "post thanks e now req s =
           (\<lparr>status = 200, sent = thanks\<rparr>,
            s\<lparr>docs := docs s @
               [\<lparr>doc_id = autoId e (docs s),
                 doc_data = submission now (string_of (get_field (body req) (js ''name'')))
                              (string_of (get_field (body req) (js ''message'')))\<rparr>]\<rparr>)"
  using assms by (simp add: post_def post_validate_None db_add_def)

lemma post_first_failure_None_status:
  assumes "first_failure req = None"
  shows "status (fst (post thanks e now req s)) \<noteq> 400"
  using assms by (simp add: post_def post_validate_None db_add_def)

lemma app_index_POST: "http_method req = js ''POST'' \<Longrightarrow> app_index e now req s = post_index e now req s"
  by (simp add: app_index_def)

lemma app_part000_POST: "http_method req = js ''POST'' \<Longrightarrow> app_part000 e now req s = post_part000 e now req s"
  by (simp add: app_part000_def)

lemma distinct_error_messages: "distinct (map error_message validation_order)"
  by (simp add: validation_order_def js_def u16_def)

lemma fails_first_failure: "fails c req \<Longrightarrow> \<exists>c'. first_failure req = Some c'"
proof -
  assume f: "fails c req"
  have "c \<in> set validation_order"
    by (cases c) (simp_all add: validation_order_def)
  with f have "find (\<lambda>c. fails c req) validation_order \<noteq> None"
    by (auto simp: find_None_iff)
  then show ?thesis
    by (auto simp: first_failure_def)
qed

lemma Object_keys_set: "set (Object_keys obj) = set (map fst obj)"
  by (simp add: Object_keys_def)

lemma includes_self: "js_includes (js ''application/x-www-form-urlencoded'') (js ''application/x-www-form-urlencoded'')"
  by (simp add: js_def)

lemma message_neq_name: "js ''message'' \<noteq> js ''name''"
  by (simp add: js_def)

lemma trim_Ada: "trim (js '' Ada '') = js ''Ada''"
  by (simp add: trim_def is_white_space_def js_def u16_def)

lemma trim_hello: "trim (js ''hello'') = js ''hello''"
  by (simp add: trim_def is_white_space_def js_def u16_def)

lemma trim_blank: "trim (js ''   '') = []"
  by (simp add: trim_def is_white_space_def js_def u16_def)

lemma trim_padded_name: "trim padded_name = replicate 100 (u16 CHR ''a'')"
  unfolding padded_name_def trim_def
  by (simp add: is_white_space_def u16_def)

lemma trim_hi: "trim (js ''hi'') = js ''hi''"
  by (simp add: trim_def is_white_space_def js_def u16_def)

lemma first_failure_padded:
  "first_failure (form_post [(js ''name'', JStr padded_name), (js ''message'', JStr (js ''hi''))])
     = Some NameLength"
proof -
  have k: "Object_keys [(js ''name'', JStr padded_name), (js ''message'', JStr (js ''hi''))]
             = [js ''name'', js ''message'']"
    by (simp add: Object_keys_def js_def)
  have i: "js_includes (js ''application/x-www-form-urlencoded'')
             (js ''application/x-www-form-urlencoded'')"
    by (simp add: js_def)
  have n: "js ''message'' \<noteq> js ''name''"
    by (simp add: js_def)
  have l: "length padded_name = 101" "js ''hi'' \<noteq> []" "length (js ''hi'') = 2"
    by (simp_all add: padded_name_def js_def)
  show ?thesis
    unfolding first_failure_unfold
    by (simp add: form_post_def get_field_def k i n l trim_padded_name trim_hi)
qed

lemma first_failure_ada_post: "first_failure ada_post = None"
proof -
  have k: "Object_keys [(js ''name'', JStr (js '' Ada '')), (js ''message'', JStr (js ''hello''))]
             = [js ''name'', js ''message'']"
    by (simp add: Object_keys_def js_def)
  have l: "length (js '' Ada '') = 5" "length (js ''hello'') = 5" "js ''Ada'' \<noteq> []" "js ''hello'' \<noteq> []"
    by (simp_all add: js_def)
  show ?thesis
    unfolding first_failure_unfold
    by (simp add: ada_post_def form_post_def get_field_def k l includes_self message_neq_name
        trim_Ada trim_hello)
qed

lemma ada_post_offline:
  "post thanks example_env 0 ada_post offline_store =
     (\<lparr>status = 500, sent = js ''Server Error: Could not process your submission.''\<rparr>,
      offline_store)"
  by (simp add: post_def post_validate_None [OF first_failure_ada_post] db_add_def
      offline_store_def)

subsection \<open>Validation order\<close>

text \<open>
  C2. For a POST request, in both files, the response is decided by the first check that
  fails in the order content type, name presence, message presence, name length, message
  length, field set: the handler answers 400 with the message of that check, whatever
  the later checks would say, and leaves the store as it was. The six messages are
  pairwise different. When no check fails the answer is not a 400.
\<close>

theorem validation_checks_in_order:
  assumes "http_method req = js ''POST''"
  shows "distinct (map error_message validation_order)
       \<and> (case first_failure req of
            Some c \<Rightarrow>
              app_index e now req s = (\<lparr>status = 400, sent = error_message c\<rparr>, s)
            \<and> app_part000 e now req s = (\<lparr>status = 400, sent = error_message c\<rparr>, s)
          | None \<Rightarrow>
              status (fst (app_index e now req s)) \<noteq> 400
            \<and> status (fst (app_part000 e now req s)) \<noteq> 400)"
proof (cases "first_failure req")
  case None
  then show ?thesis
    using assms distinct_error_messages
    by (simp add: app_index_POST app_part000_POST post_index_def post_part000_def
        post_first_failure_None_status)
next
  case (Some c)
  then show ?thesis
    using assms distinct_error_messages
    by (simp add: app_index_POST app_part000_POST post_index_def post_part000_def
        post_first_failure_Some)
qed

text \<open>
  The request \<^verbatim>\<open>name=+++&message=\<close> fails the name check and the message check; the
  answer names \<^verbatim>\<open>name\<close>.
\<close>

theorem validation_checks_in_order_witness:
  \<open>first_failure blank_post = Some NamePresence \<and> fails MessagePresence blank_post
   \<and> app_index example_env 0 blank_post empty_store
      = (\<lparr>status = 400,
          sent = js ''Validation Error: \'name\' field is required and cannot be empty.''\<rparr>,
         empty_store)
   \<and> app_part000 example_env 0 blank_post empty_store
      = (\<lparr>status = 400,
          sent = js ''Validation Error: \'name\' field is required and cannot be empty.''\<rparr>,
         empty_store)\<close>
proof -
  have m: "http_method blank_post = js ''POST''"
    by (simp add: blank_post_def form_post_def)
  have f: "first_failure blank_post = Some NamePresence"
    unfolding first_failure_unfold
    by (simp add: blank_post_def form_post_def get_field_def includes_self trim_blank)
  have g: "fails MessagePresence blank_post"
    by (simp add: blank_post_def form_post_def get_field_def message_neq_name trim_Nil js_def)
  show ?thesis
    using validation_checks_in_order [OF m, of example_env 0 empty_store] f g
    by simp
qed

subsection \<open>A rejected request writes nothing\<close>

text \<open>
  C4. For a POST request that fails any of the six checks, in both files, the handler
  answers 400 and the store after the request is the store before it.
\<close>

theorem failed_validation_no_write:
  assumes "http_method req = js ''POST''" and "fails c req"
  shows "status (fst (app_index e now req s)) = 400 \<and> snd (app_index e now req s) = s
       \<and> status (fst (app_part000 e now req s)) = 400 \<and> snd (app_part000 e now req s) = s"
proof -
  from assms(2) obtain c' where "first_failure req = Some c'"
    using fails_first_failure by blast
  then show ?thesis
    using assms(1)
    by (simp add: app_index_POST app_part000_POST post_index_def post_part000_def
        post_first_failure_Some)
qed

theorem failed_validation_no_write_witness:
  "fails FieldSet extra_field_post
   \<and> status (fst (app_index example_env 0 extra_field_post (store_of [ada_doc]))) = 400
   \<and> snd (app_index example_env 0 extra_field_post (store_of [ada_doc])) = store_of [ada_doc]
   \<and> status (fst (app_part000 example_env 0 extra_field_post (store_of [ada_doc]))) = 400
   \<and> snd (app_part000 example_env 0 extra_field_post (store_of [ada_doc])) = store_of [ada_doc]"
proof -
  have m: "http_method extra_field_post = js ''POST''"
    by (simp add: extra_field_post_def form_post_def)
  have f: "fails FieldSet extra_field_post"
  proof -
    have "js ''extra'' \<in> set (Object_keys (body extra_field_post))"
      by (simp add: extra_field_post_def form_post_def Object_keys_def)
    moreover have "js ''extra'' \<notin> {js ''name'', js ''message''}"
      by (simp add: js_def)
    ultimately show ?thesis
      by (metis fails.simps(6))
  qed
  show ?thesis
    using failed_validation_no_write [OF m f, of example_env 0 "store_of [ada_doc]"] f
    by simp
qed

subsection \<open>A valid request inserts one record\<close>

text \<open>
  C1, as the claim states it, bounds the trimmed lengths and promises a 200 for every
  such request. The code bounds the lengths as received: a name of a space and a hundred
  letters has a hundred characters after trimming, and the request is answered 400 with
  nothing stored. And a request that passes every check is answered 500, with nothing
  stored, when the insert is rejected because the store cannot be reached.
\<close>

theorem padded_name_rejected:
  \<open>length (trim padded_name) = 100 \<and> length (trim (js ''hi'')) = 2
   \<and> app_index example_env 0
        (form_post [(js ''name'', JStr padded_name), (js ''message'', JStr (js ''hi''))])
        empty_store
      = (\<lparr>status = 400,
          sent = js ''Validation Error: \'name\' field must be 100 characters or less.''\<rparr>,
         empty_store)
   \<and> app_part000 example_env 0
        (form_post [(js ''name'', JStr padded_name), (js ''message'', JStr (js ''hi''))])
        empty_store
      = (\<lparr>status = 400,
          sent = js ''Validation Error: \'name\' field must be 100 characters or less.''\<rparr>,
         empty_store)
   \<and> first_failure ada_post = None
   \<and> app_index example_env 0 ada_post offline_store
      = (\<lparr>status = 500, sent = js ''Server Error: Could not process your submission.''\<rparr>,
         offline_store)
   \<and> app_part000 example_env 0 ada_post offline_store
      = (\<lparr>status = 500, sent = js ''Server Error: Could not process your submission.''\<rparr>,
         offline_store)\<close>
proof -
  let ?req = "form_post [(js ''name'', JStr padded_name), (js ''message'', JStr (js ''hi''))]"
  have n: "http_method ada_post = js ''POST''"
    by (simp add: ada_post_def form_post_def)
  have m: "http_method ?req = js ''POST''"
    by (simp add: form_post_def)
  have a: "post thanks example_env 0 ?req empty_store
             = (\<lparr>status = 400, sent = error_message NameLength\<rparr>, empty_store)" for thanks
    by (rule post_first_failure_Some [OF first_failure_padded])
  have l1: "length (trim padded_name) = 100"
    by (simp add: trim_padded_name)
  have l2: "length (trim (js ''hi'')) = 2"
    unfolding trim_hi by (simp add: js_def)
  show ?thesis
    using a l1 l2 first_failure_ada_post ada_post_offline
    by (simp add: app_index_POST [OF m] app_part000_POST [OF m] app_index_POST [OF n]
        app_part000_POST [OF n] post_index_def post_part000_def)
qed

text \<open>
  C1, amended. For a POST request whose content type contains
  \<^verbatim>\<open>application/x-www-form-urlencoded\<close> and whose body has exactly the fields \<^verbatim>\<open>name\<close>
  and \<^verbatim>\<open>message\<close>, both strings, not empty after trimming, of at most 100 and 2000
  characters as received, and a store that accepts the insert: the handler answers 200
  and the store gains exactly one document, appended, whose data are the trimmed name,
  the trimmed message and the timestamp of the server's clock.
\<close>

theorem valid_post_inserts_one_record:
  assumes "http_method req = js ''POST''"
    and "content_type req = Some ct"
    and "js_includes ct (js ''application/x-www-form-urlencoded'')"
    and "set (map fst (body req)) = {js ''name'', js ''message''}"
    and "get_field (body req) (js ''name'') = JStr name"
    and "get_field (body req) (js ''message'') = JStr message"
    and "1 \<le> length (trim name)" and "length name \<le> 100"
    and "1 \<le> length (trim message)" and "length message \<le> 2000"
    and "online s"
  shows "app_index e now req s =
           (\<lparr>status = 200,
             sent = js ''Thanks for your message! It will be recorded for all eternity.''\<rparr>,
            s\<lparr>docs := docs s @
               [\<lparr>doc_id = autoId e (docs s),
                 doc_data = [(js ''name'', JStr (trim name)),
                             (js ''message'', JStr (trim message)),
                             (js ''timestamp'', JTimestamp now)]\<rparr>]\<rparr>)
       \<and> app_part000 e now req s =
           (\<lparr>status = 200, sent = js ''Thanks for writing your message!''\<rparr>,
            s\<lparr>docs := docs s @
               [\<lparr>doc_id = autoId e (docs s),
                 doc_data = [(js ''name'', JStr (trim name)),
                             (js ''message'', JStr (trim message)),
                             (js ''timestamp'', JTimestamp now)]\<rparr>]\<rparr>)"
proof -
  have "first_failure req = None"
    unfolding first_failure_unfold
    using assms(2-10) by (auto simp: Object_keys_set simp del: set_map)
  from post_first_failure_None [OF this assms(11)] show ?thesis
    using assms(1,5,6)
    by (simp add: app_index_POST app_part000_POST post_index_def post_part000_def submission_def)
qed

theorem valid_post_inserts_one_record_witness:
  \<open>app_index example_env 0
     (form_post [(js ''name'', JStr (js '' Ada '')), (js ''message'', JStr (js ''hello''))])
     empty_store
   = (\<lparr>status = 200,
       sent = js ''Thanks for your message! It will be recorded for all eternity.''\<rparr>,
      \<lparr>docs = [\<lparr>doc_id = js ''doc'',
                 doc_data = [(js ''name'', JStr (js ''Ada'')),
                             (js ''message'', JStr (js ''hello'')),
                             (js ''timestamp'', JTimestamp 0)]\<rparr>],
        online = True\<rparr>)
   \<and> app_part000 example_env 0
     (form_post [(js ''name'', JStr (js '' Ada '')), (js ''message'', JStr (js ''hello''))])
     empty_store
   = (\<lparr>status = 200, sent = js ''Thanks for writing your message!''\<rparr>,
      \<lparr>docs = [\<lparr>doc_id = js ''doc'',
                 doc_data = [(js ''name'', JStr (js ''Ada'')),
                             (js ''message'', JStr (js ''hello'')),
                             (js ''timestamp'', JTimestamp 0)]\<rparr>],
        online = True\<rparr>)\<close>
proof -
  let ?req = "form_post [(js ''name'', JStr (js '' Ada '')), (js ''message'', JStr (js ''hello''))]"
  have h1: "http_method ?req = js ''POST''"
    and h2: "content_type ?req = Some (js ''application/x-www-form-urlencoded'')"
    and h4: "set (map fst (body ?req)) = {js ''name'', js ''message''}"
    and h5: "get_field (body ?req) (js ''name'') = JStr (js '' Ada '')"
    and h6: "get_field (body ?req) (js ''message'') = JStr (js ''hello'')"
    by (simp_all add: form_post_def get_field_def message_neq_name)
  have h7: "1 \<le> length (trim (js '' Ada ''))" and h8: "length (js '' Ada '') \<le> 100"
    and h9: "1 \<le> length (trim (js ''hello''))" and h10: "length (js ''hello'') \<le> 2000"
    unfolding trim_Ada trim_hello by (simp_all add: js_def)
  have h11: "online empty_store"
    by (simp add: empty_store_def)
  have id: "autoId example_env (docs empty_store) = js ''doc''"
    by (simp add: example_env_def empty_store_def)
  show ?thesis
    using valid_post_inserts_one_record [OF h1 h2 includes_self h4 h5 h6 h7 h8 h9 h10 h11,
        of example_env 0]
    unfolding trim_Ada trim_hello id
    by (simp add: empty_store_def)
qed

section \<open>Properties of the GET branch\<close>

subsection \<open>Loops, the query and the page\<close>

lemma try_map_length: "try_map f xs = Inr ys \<Longrightarrow> length ys = length xs"
  by (induction xs arbitrary: ys) (auto split: sum.splits)

lemma try_map_nth:
  "try_map f xs = Inr ys \<Longrightarrow> i < length xs \<Longrightarrow> f (xs ! i) = Inr (ys ! i)"
proof (induction xs arbitrary: ys i)
  case Nil
  then show ?case by simp
next
  case (Cons x xs)
  then show ?case
    by (cases i) (auto split: sum.splits)
qed

lemma try_map_total:
  "list_all (\<lambda>x. \<exists>y. f x = Inr y) xs \<Longrightarrow> \<exists>ys. try_map f xs = Inr ys"
  by (induction xs) auto

lemma try_map_fails:
  "x \<in> set xs \<Longrightarrow> f x = Inl err \<Longrightarrow> \<exists>err'. try_map f xs = Inl err'"
  by (induction xs) (auto split: sum.splits)

lemma join_empty_separator: "join [] xs = concat xs"
  by (induction "[] :: jsstring" xs rule: join.induct) simp_all

lemma GET_neq_POST: "js ''GET'' \<noteq> js ''POST''"
  by (simp add: js_def)

lemma app_index_GET: "http_method req = js ''GET'' \<Longrightarrow> app_index e now req s = get_index e s"
  by (simp add: app_index_def GET_neq_POST)

lemma app_part000_GET: "http_method req = js ''GET'' \<Longrightarrow> app_part000 e now req s = get_part000 e s"
  by (simp add: app_part000_def GET_neq_POST)

lemma get_index_store: "snd (get_index e s) = s"
  by (simp add: get_index_def split: sum.splits)

lemma get_part000_store: "snd (get_part000 e s) = s"
  by (simp add: get_part000_def split: sum.splits)

lemma db_get_length: "db_get e n s = Inr snapshot \<Longrightarrow> length snapshot \<le> n"
  by (auto simp: db_get_def split: if_splits)

lemma submission_blocks_index_length:
  "submission_blocks_index e snapshot = Inr blocks \<Longrightarrow> length blocks = length snapshot"
  by (auto simp: submission_blocks_index_def dest: try_map_length)


lemma and_then_Inr: "and_then r f = Inr y \<longleftrightarrow> (\<exists>x. r = Inr x \<and> f x = Inr y)"
  by (cases r) (simp_all add: and_then_def)

lemma submission_blocks_part000_length:
  "submission_blocks_part000 e snapshot = Inr blocks \<Longrightarrow> length blocks = length snapshot"
proof -
  assume "submission_blocks_part000 e snapshot = Inr blocks"
  then obtain submissions where
    "try_map (submission_of_doc e) snapshot = Inr submissions"
    "try_map submission_block_part000 submissions = Inr blocks"
    by (auto simp: submission_blocks_part000_def submissions_part000_def and_then_Inr)
  then have "length submissions = length snapshot" "length blocks = length submissions"
    by (auto dest: try_map_length)
  then show ?thesis
    by simp
qed

lemma submissionsHtml_part000_blocks:
  "submissionsHtml_part000 e snapshot =
     (case submission_blocks_part000 e snapshot of
        Inl err \<Rightarrow> Inl err
      | Inr blocks \<Rightarrow>
          Inr (if blocks = [] then js ''<p>No submissions yet.</p>'' else concat blocks))"
proof (cases "submissions_part000 e snapshot")
  case (Inl err)
  then show ?thesis
    by (simp add: submissionsHtml_part000_def submission_blocks_part000_def and_then_def)
next
  case (Inr submissions)
  show ?thesis
  proof (cases "try_map submission_block_part000 submissions")
    case (Inl err)
    then have "submissions \<noteq> []"
      by auto
    with Inl Inr show ?thesis
      by (simp add: submissionsHtml_part000_def submission_blocks_part000_def and_then_def)
  next
    case blocks: (Inr blocks)
    then have "length blocks = length submissions"
      by (rule try_map_length)
    then have "blocks = [] \<longleftrightarrow> submissions = []"
      by auto
    with blocks Inr show ?thesis
      by (simp add: submissionsHtml_part000_def submission_blocks_part000_def and_then_def
          join_empty_separator)
  qed
qed

lemma get_part000_page:
  assumes "db_get e 50 s = Inr snapshot"
    and "submission_blocks_part000 e snapshot = Inr blocks"
  shows "get_part000 e s =
           (\<lparr>status = 200,
             sent = js page_part000_head
                    @ (if blocks = [] then js ''<p>No submissions yet.</p>'' else concat blocks)
                    @ js page_part000_tail\<rparr>, s)"
  using assms
  by (simp add: get_part000_def LIMIT_part000_def submissionsHtml_part000_blocks)

lemma get_part000_200:
  assumes "status (fst (get_part000 e s)) = 200"
  shows "\<exists>snapshot blocks.
           db_get e 50 s = Inr snapshot \<and> submission_blocks_part000 e snapshot = Inr blocks
         \<and> sent (fst (get_part000 e s)) =
             js page_part000_head
             @ (if blocks = [] then js ''<p>No submissions yet.</p>'' else concat blocks)
             @ js page_part000_tail"
proof (cases "db_get e 50 s")
  case (Inl err)
  with assms show ?thesis
    by (simp add: get_part000_def LIMIT_part000_def)
next
  case (Inr snapshot)
  show ?thesis
  proof (cases "submission_blocks_part000 e snapshot")
    case (Inl err)
    with assms Inr show ?thesis
      by (simp add: get_part000_def LIMIT_part000_def submissionsHtml_part000_blocks)
  next
    case blocks: (Inr blocks)
    with Inr show ?thesis
      by (simp add: get_part000_page)
  qed
qed

lemma get_index_200:
  assumes "status (fst (get_index e s)) = 200"
  shows "\<exists>snapshot blocks.
           db_get e 500 s = Inr snapshot \<and> submission_blocks_index e snapshot = Inr blocks
         \<and> sent (fst (get_index e s)) =
             js page_index_head
             @ (if blocks = [] then js ''<p>No submissions yet.</p>'' else concat blocks)
             @ js page_index_tail"
proof (cases "db_get e 500 s")
  case (Inl err)
  with assms show ?thesis
    by (simp add: get_index_def LIMIT_index_def)
next
  case (Inr snapshot)
  show ?thesis
  proof (cases "snapshot = []")
    case True
    with Inr show ?thesis
      by (simp add: get_index_def LIMIT_index_def submissionsHtml_index_def
          submission_blocks_index_def)
  next
    case False
    show ?thesis
    proof (cases "submission_blocks_index e snapshot")
      case (Inl err)
      with assms Inr False show ?thesis
        by (simp add: get_index_def LIMIT_index_def submissionsHtml_index_def)
    next
      case blocks: (Inr blocks)
      then have "blocks \<noteq> []"
        using False submission_blocks_index_length by fastforce
      with Inr False blocks show ?thesis
        by (simp add: get_index_def LIMIT_index_def submissionsHtml_index_def
            join_empty_separator)
    qed
  qed
qed

lemma formattedTimestamp_total:
  "absent_or_timestamp ts \<Longrightarrow> \<exists>ft. formattedTimestamp e ts = Inr ft"
  by (cases ts) (simp_all add: formattedTimestamp_def)

lemma submission_of_doc_total:
  "absent_or_timestamp (get_field (doc_data d) (js ''timestamp'')) \<Longrightarrow>
     \<exists>sub. submission_of_doc e d = Inr sub"
  using formattedTimestamp_total [of "get_field (doc_data d) (js ''timestamp'')" e]
  by (auto simp: submission_of_doc_def Let_def)

lemma escape_chain_part000_NA: "escape_chain_part000 (js ''N/A'') = js ''N/A''"
  by (simp add: escape_chain_part000_def replaceAll_def js_def u16_def)

lemma keys_distinct:
  "js ''name'' \<noteq> js ''id''" "js ''message'' \<noteq> js ''id''" "js ''message'' \<noteq> js ''name''"
  "js ''timestamp'' \<noteq> js ''id''" "js ''timestamp'' \<noteq> js ''name''"
  "js ''timestamp'' \<noteq> js ''message''"
  "js ''rawTimestamp'' \<noteq> js ''id''" "js ''rawTimestamp'' \<noteq> js ''name''"
  "js ''rawTimestamp'' \<noteq> js ''message''" "js ''rawTimestamp'' \<noteq> js ''timestamp''"
  by (simp_all add: js_def)

lemma printable_Inr: "printable v \<Longrightarrow> \<exists>text. js_String v = Inr text"
  by (cases "js_String v") (simp_all add: printable_def)

lemma printable_escaped:
  "printable v \<Longrightarrow> \<exists>text. js_String (escapeHtml_part000 v) = Inr text"
  by (cases v) (simp_all add: printable_def split: sum.splits if_splits)

lemma printable_shown:
  assumes "printable v"
  shows "js_String (escapeHtml_part000 (js_or v (JStr (js ''N/A'')))) = Inr (shown_field_part000 v)"
proof -
  have "\<exists>text. js_String (escapeHtml_part000 (js_or v (JStr (js ''N/A'')))) = Inr text"
    using printable_escaped [OF assms] by (simp add: js_or_def)
  then show ?thesis
    by (auto simp: shown_field_part000_def)
qed

lemma shown_field_absent: "\<not> truthy v \<Longrightarrow> shown_field_part000 v = js ''N/A''"
  by (simp add: shown_field_part000_def js_or_def escape_chain_part000_NA)

lemma shown_timestamp_absent: "\<not> truthy ts \<Longrightarrow> shown_timestamp_part000 e ts = js ''N/A''"
  by (simp add: shown_timestamp_part000_def formattedTimestamp_def escape_chain_part000_NA)

lemma submission_of_doc_fields:
  assumes "submission_of_doc e d = Inr sub"
  shows "get_field sub (js ''rawTimestamp'') = JUndefined"
    and "get_field sub (js ''name'')
           = js_or (get_field (doc_data d) (js ''name'')) (JStr (js ''N/A''))"
    and "get_field sub (js ''message'')
           = js_or (get_field (doc_data d) (js ''message'')) (JStr (js ''N/A''))"
    and "js_String (escapeHtml_part000 (get_field sub (js ''timestamp'')))
           = Inr (shown_timestamp_part000 e (get_field (doc_data d) (js ''timestamp'')))"
proof -
  from assms obtain ft where
    ft: "formattedTimestamp e (get_field (doc_data d) (js ''timestamp'')) = Inr ft"
    and sub: "sub =
      [(js ''id'', JStr (doc_id d)),
       (js ''name'', js_or (get_field (doc_data d) (js ''name'')) (JStr (js ''N/A''))),
       (js ''message'', js_or (get_field (doc_data d) (js ''message'')) (JStr (js ''N/A''))),
       (js ''timestamp'', JStr ft)]"
    by (auto simp: submission_of_doc_def Let_def split: sum.splits)
  show "get_field sub (js ''rawTimestamp'') = JUndefined"
    and "get_field sub (js ''name'')
           = js_or (get_field (doc_data d) (js ''name'')) (JStr (js ''N/A''))"
    and "get_field sub (js ''message'')
           = js_or (get_field (doc_data d) (js ''message'')) (JStr (js ''N/A''))"
    by (simp_all add: sub get_field_def keys_distinct)
  have "get_field sub (js ''timestamp'') = JStr ft"
    by (simp add: sub get_field_def keys_distinct)
  then show "js_String (escapeHtml_part000 (get_field sub (js ''timestamp'')))
           = Inr (shown_timestamp_part000 e (get_field (doc_data d) (js ''timestamp'')))"
    by (simp add: shown_timestamp_part000_def ft)
qed

text \<open>
  A block that \<^verbatim>\<open>part_000\<close> renders is the template around the three shown texts, with
  nothing in \<^verbatim>\<open>data-timestamp\<close>.
\<close>

lemma raw_timestamp_text: "js_String (js_or JUndefined (JStr [])) = Inr []"
  by (simp add: js_or_def)

lemma block_of_doc_part000:
  assumes "submission_of_doc e d = Inr sub" and "submission_block_part000 sub = Inr b"
  shows "b = block_template_part000
             (shown_field_part000 (get_field (doc_data d) (js ''name'')))
             []
             (shown_timestamp_part000 e (get_field (doc_data d) (js ''timestamp'')))
             (shown_field_part000 (get_field (doc_data d) (js ''message'')))"
proof -
  note f = submission_of_doc_fields [OF assms(1)]
  from assms(2) obtain n m where
    n: "js_String (escapeHtml_part000
          (js_or (get_field (doc_data d) (js ''name'')) (JStr (js ''N/A'')))) = Inr n"
    and m: "js_String (escapeHtml_part000
          (js_or (get_field (doc_data d) (js ''message'')) (JStr (js ''N/A'')))) = Inr m"
    and b: "b = block_template_part000 n []
                  (shown_timestamp_part000 e (get_field (doc_data d) (js ''timestamp''))) m"
    unfolding submission_block_part000_def and_then_Inr f raw_timestamp_text
    by auto
  from n m b show ?thesis
    by (simp add: shown_field_part000_def)
qed

lemma block_of_doc_part000_total:
  assumes "submission_of_doc e d = Inr sub"
    and "printable (get_field (doc_data d) (js ''name''))"
    and "printable (get_field (doc_data d) (js ''message''))"
  shows "\<exists>b. submission_block_part000 sub = Inr b"
  unfolding submission_block_part000_def submission_of_doc_fields [OF assms(1)]
    printable_shown [OF assms(2)] printable_shown [OF assms(3)] raw_timestamp_text
  by (simp add: and_then_def)

lemma submission_blocks_part000_total:
  assumes "list_all renders_part000 snapshot"
  shows "\<exists>blocks. submission_blocks_part000 e snapshot = Inr blocks"
proof -
  have "list_all (\<lambda>d. \<exists>sub. submission_of_doc e d = Inr sub) snapshot"
    using assms by (auto simp: list_all_iff renders_part000_def submission_of_doc_total)
  from try_map_total [OF this] obtain submissions where
    subs: "try_map (submission_of_doc e) snapshot = Inr submissions"
    by blast
  have "list_all (\<lambda>sub. \<exists>b. submission_block_part000 sub = Inr b) submissions"
    unfolding list_all_length
  proof (intro allI impI)
    fix i
    assume "i < length submissions"
    then have i: "i < length snapshot"
      using try_map_length [OF subs] by simp
    then have "renders_part000 (snapshot ! i)"
      using assms by (simp add: list_all_length)
    moreover have "submission_of_doc e (snapshot ! i) = Inr (submissions ! i)"
      using subs i by (rule try_map_nth)
    ultimately show "\<exists>b. submission_block_part000 (submissions ! i) = Inr b"
      by (auto simp: renders_part000_def intro: block_of_doc_part000_total)
  qed
  from try_map_total [OF this] subs show ?thesis
    by (auto simp: submission_blocks_part000_def submissions_part000_def and_then_def)
qed

lemma submission_blocks_part000_nth:
  assumes "submission_blocks_part000 e snapshot = Inr blocks" and "i < length snapshot"
  shows "blocks ! i =
           block_template_part000
             (shown_field_part000 (get_field (doc_data (snapshot ! i)) (js ''name'')))
             []
             (shown_timestamp_part000 e (get_field (doc_data (snapshot ! i)) (js ''timestamp'')))
             (shown_field_part000 (get_field (doc_data (snapshot ! i)) (js ''message'')))"
proof -
  from assms(1) obtain subs where
    subs: "try_map (submission_of_doc e) snapshot = Inr subs"
    and blocks: "try_map submission_block_part000 subs = Inr blocks"
    by (auto simp: submission_blocks_part000_def submissions_part000_def and_then_Inr)
  have len: "length subs = length snapshot"
    using subs by (rule try_map_length)
  have d: "submission_of_doc e (snapshot ! i) = Inr (subs ! i)"
    using subs assms(2) by (rule try_map_nth)
  have "submission_block_part000 (subs ! i) = Inr (blocks ! i)"
    using blocks assms(2) len by (simp add: try_map_nth)
  from block_of_doc_part000 [OF d this] show ?thesis .
qed

text \<open>\<^verbatim>\<open>includes\<close> finds a text exactly when the text stands somewhere in the string.\<close>

lemma js_includes_iff: "js_includes s sub \<longleftrightarrow> (\<exists>p q. s = p @ sub @ q)"
proof (induction s)
  case Nil
  show ?case by auto
next
  case (Cons x xs)
  show ?case
  proof
    assume "js_includes (x # xs) sub"
    then consider "prefix sub (x # xs)" | "js_includes xs sub"
      by auto
    then show "\<exists>p q. x # xs = p @ sub @ q"
    proof cases
      case 1
      then obtain q where "x # xs = sub @ q"
        by (auto simp: prefix_def)
      then have "x # xs = [] @ sub @ q"
        by simp
      then show ?thesis
        by blast
    next
      case 2
      with Cons.IH obtain p q where "xs = p @ sub @ q"
        by blast
      then have "x # xs = (x # p) @ sub @ q"
        by simp
      then show ?thesis
        by blast
    qed
  next
    assume "\<exists>p q. x # xs = p @ sub @ q"
    then obtain p q where pq: "x # xs = p @ sub @ q"
      by blast
    show "js_includes (x # xs) sub"
    proof (cases p)
      case Nil
      with pq have "prefix sub (x # xs)"
        by (simp add: prefix_def)
      then show ?thesis
        by simp
    next
      case (Cons y p')
      with pq have "xs = p' @ sub @ q"
        by simp
      with Cons.IH show ?thesis
        by auto
    qed
  qed
qed

lemma page_includes_block_part:
  assumes "i < length blocks" and "blocks ! i = a @ part @ b"
  shows "js_includes (front @ (if blocks = [] then other else concat blocks) @ back) part"
proof -
  have ne: "blocks \<noteq> []"
    using assms(1) by auto
  have "blocks = take i blocks @ blocks ! i # drop (Suc i) blocks"
    using assms(1) by (rule id_take_nth_drop)
  then have "concat blocks
               = concat (take i blocks @ blocks ! i # drop (Suc i) blocks)"
    by simp
  then have "concat blocks
               = concat (take i blocks) @ (a @ part @ b) @ concat (drop (Suc i) blocks)"
    using assms(2) by simp
  then have "front @ concat blocks @ back
               = (front @ concat (take i blocks) @ a) @ part
                 @ (b @ concat (drop (Suc i) blocks) @ back)"
    by simp
  then have "\<exists>p q. front @ concat blocks @ back = p @ part @ q"
    by blast
  then show ?thesis
    using ne by (simp add: js_includes_iff)
qed

text \<open>
  The page of \<^verbatim>\<open>part_000\<close> for a snapshot whose documents all render: one block for each
  document, in the snapshot's order.
\<close>

lemma part000_page:
  assumes "http_method req = js ''GET''"
    and "db_get e 50 s = Inr snapshot"
    and "list_all renders_part000 snapshot"
  obtains blocks where
    "submission_blocks_part000 e snapshot = Inr blocks"
    "length blocks = length snapshot"
    "app_part000 e now req s =
       (\<lparr>status = 200,
         sent = js page_part000_head
                @ (if blocks = [] then js ''<p>No submissions yet.</p>'' else concat blocks)
                @ js page_part000_tail\<rparr>, s)"
    "\<And>i. i < length snapshot \<Longrightarrow>
       blocks ! i =
         block_template_part000
           (shown_field_part000 (get_field (doc_data (snapshot ! i)) (js ''name'')))
           []
           (shown_timestamp_part000 e (get_field (doc_data (snapshot ! i)) (js ''timestamp'')))
           (shown_field_part000 (get_field (doc_data (snapshot ! i)) (js ''message'')))"
proof -
  from submission_blocks_part000_total [OF assms(3)] obtain blocks where
    blocks: "submission_blocks_part000 e snapshot = Inr blocks"
    by blast
  show ?thesis
  proof (rule that [of blocks])
    show "submission_blocks_part000 e snapshot = Inr blocks"
      by (rule blocks)
    show "length blocks = length snapshot"
      using blocks by (rule submission_blocks_part000_length)
    show "app_part000 e now req s =
       (\<lparr>status = 200,
         sent = js page_part000_head
                @ (if blocks = [] then js ''<p>No submissions yet.</p>'' else concat blocks)
                @ js page_part000_tail\<rparr>, s)"
      using get_part000_page [OF assms(2) blocks] assms(1) by (simp add: app_part000_GET)
    show "blocks ! i =
         block_template_part000
           (shown_field_part000 (get_field (doc_data (snapshot ! i)) (js ''name'')))
           []
           (shown_timestamp_part000 e (get_field (doc_data (snapshot ! i)) (js ''timestamp'')))
           (shown_field_part000 (get_field (doc_data (snapshot ! i)) (js ''message'')))"
      if "i < length snapshot" for i
      using blocks that by (rule submission_blocks_part000_nth)
  qed
qed

text \<open>The template of \<^verbatim>\<open>part_000\<close> with \<^verbatim>\<open>N/A\<close> in one of its places, as text.\<close>

lemma template_name_NA:
  \<open>block_template_part000 (js ''N/A'') [] t m =
     js ''\<newline>      <div class="submission">\<newline>        <p class="name">N/A</p>\<newline>        <p class="timestamp" data-timestamp="">''
     @ t @ js ''</p>\<newline>        <p class="message">'' @ m
     @ js ''</p>\<newline>      </div>\<newline>        ''\<close>
  by (simp add: block_template_part000_def js_def)

lemma template_name_NA_split:
  \<open>block_template_part000 (js ''N/A'') [] t m =
     js ''\<newline>      <div class="submission">\<newline>        ''
     @ js ''<p class="name">N/A</p>''
     @ (js ''\<newline>        <p class="timestamp" data-timestamp="">''
        @ t @ js ''</p>\<newline>        <p class="message">'' @ m
        @ js ''</p>\<newline>      </div>\<newline>        '')\<close>
  by (simp add: block_template_part000_def js_def)

lemma template_message_NA:
  \<open>block_template_part000 n [] t (js ''N/A'') =
     js ''\<newline>      <div class="submission">\<newline>        <p class="name">'' @ n
     @ js ''</p>\<newline>        <p class="timestamp" data-timestamp="">'' @ t
     @ js ''</p>\<newline>        <p class="message">N/A</p>\<newline>      </div>\<newline>        ''\<close>
  by (simp add: block_template_part000_def js_def)

lemma template_message_NA_split:
  \<open>block_template_part000 n [] t (js ''N/A'') =
     (js ''\<newline>      <div class="submission">\<newline>        <p class="name">'' @ n
      @ js ''</p>\<newline>        <p class="timestamp" data-timestamp="">'' @ t
      @ js ''</p>\<newline>        '')
     @ js ''<p class="message">N/A</p>''
     @ js ''\<newline>      </div>\<newline>        ''\<close>
  by (simp add: block_template_part000_def js_def)

lemma template_timestamp_NA:
  \<open>block_template_part000 n [] (js ''N/A'') m =
     js ''\<newline>      <div class="submission">\<newline>        <p class="name">'' @ n
     @ js ''</p>\<newline>        <p class="timestamp" data-timestamp="">N/A</p>\<newline>        <p class="message">''
     @ m @ js ''</p>\<newline>      </div>\<newline>        ''\<close>
  by (simp add: block_template_part000_def js_def)

lemma template_timestamp_NA_split:
  \<open>block_template_part000 n [] (js ''N/A'') m =
     (js ''\<newline>      <div class="submission">\<newline>        <p class="name">'' @ n
      @ js ''</p>\<newline>        '')
     @ js ''<p class="timestamp" data-timestamp="">N/A</p>''
     @ (js ''\<newline>        <p class="message">''
        @ m @ js ''</p>\<newline>      </div>\<newline>        '')\<close>
  by (simp add: block_template_part000_def js_def)

subsection \<open>The example environment\<close>

lemma get_request_GET: "http_method get_request = js ''GET''"
  by (simp add: get_request_def)

lemma sort_key_replicate: "sort_key f (replicate n x) = replicate n x"
proof (induction n)
  case 0
  show ?case by simp
next
  case (Suc n)
  then show ?case
    by (cases n) simp_all
qed

lemma example_order_single:
  assumes "get_field data (js ''timestamp'') \<noteq> JUndefined"
  shows "orderByTimestampDesc example_env [\<lparr>doc_id = i, doc_data = data\<rparr>]
           = [\<lparr>doc_id = i, doc_data = data\<rparr>]"
  using assms by (simp add: example_env_def)

lemma db_get_single:
  assumes "get_field data (js ''timestamp'') \<noteq> JUndefined" and "0 < n"
  shows "db_get example_env n (store_of [data]) = Inr [\<lparr>doc_id = js ''doc'', doc_data = data\<rparr>]"
  using assms(2) example_order_single [OF assms(1)]
  by (cases n) (simp_all add: db_get_def store_of_def)

lemma ada_doc_fields:
  "get_field ada_doc (js ''name'') = JStr (js ''Ada'')"
  "get_field ada_doc (js ''message'') = JStr (js ''hello'')"
  "get_field ada_doc (js ''timestamp'') = JTimestamp 0"
  by (simp_all add: ada_doc_def get_field_def js_def u16_def)

lemma nameless_doc_fields:
  "get_field nameless_doc (js ''name'') = JUndefined"
  "get_field nameless_doc (js ''message'') = JStr (js ''hello'')"
  "get_field nameless_doc (js ''timestamp'') = JTimestamp 0"
  by (simp_all add: nameless_doc_def get_field_def js_def u16_def)

lemma undated_doc_fields:
  "get_field undated_doc (js ''name'') = JStr (js ''Ada'')"
  "get_field undated_doc (js ''message'') = JStr (js ''hello'')"
  "get_field undated_doc (js ''timestamp'') = JNull"
  by (simp_all add: undated_doc_def get_field_def js_def u16_def)

lemma misdated_doc_fields:
  "get_field misdated_doc (js ''timestamp'') = JStr (js ''yesterday'')"
  by (simp_all add: misdated_doc_def get_field_def js_def u16_def)

lemma escape_plain_part000:
  "escape_chain_part000 (js ''Ada'') = js ''Ada''"
  "escape_chain_part000 (js ''hello'') = js ''hello''"
  "escape_chain_part000 (js ''1/1/1970, 12:00:00 AM'') = js ''1/1/1970, 12:00:00 AM''"
  by (simp_all add: escape_chain_part000_def replaceAll_def js_def u16_def)

lemma escape_plain_index:
  "escape_chain_index (js ''Ada'') = js ''Ada''"
  "escape_chain_index (js ''hello'') = js ''hello''"
  "escape_chain_index (js ''1/1/1970, 12:00:00 AM'') = js ''1/1/1970, 12:00:00 AM''"
  "escape_chain_index (js ''1970-01-01T00:00:00.000Z'') = js ''1970-01-01T00:00:00.000Z''"
  by (simp_all add: escape_chain_index_def replaceAll_def js_def u16_def)

lemma shown_examples:
  "shown_field_part000 (JStr (js ''Ada'')) = js ''Ada''"
  "shown_field_part000 (JStr (js ''hello'')) = js ''hello''"
  "shown_timestamp_part000 example_env (JTimestamp 0) = js ''1/1/1970, 12:00:00 AM''"
proof -
  have "truthy (JStr (js ''Ada''))" "truthy (JStr (js ''hello''))"
    by (simp_all add: js_def)
  then show "shown_field_part000 (JStr (js ''Ada'')) = js ''Ada''"
    "shown_field_part000 (JStr (js ''hello'')) = js ''hello''"
    by (simp_all add: shown_field_part000_def js_or_def escape_plain_part000)
  show "shown_timestamp_part000 example_env (JTimestamp 0) = js ''1/1/1970, 12:00:00 AM''"
    by (simp add: shown_timestamp_part000_def formattedTimestamp_def example_env_def
        escape_plain_part000)
qed

lemma nameless_misdated_doc_fields:
  "get_field nameless_misdated_doc (js ''name'') = JUndefined"
  "get_field nameless_misdated_doc (js ''timestamp'') = JStr (js ''yesterday'')"
  by (simp_all add: nameless_misdated_doc_def get_field_def js_def u16_def)

lemma unprintable_undated_doc_fields:
  "get_field unprintable_undated_doc (js ''name'') = JObj [(js ''toString'', JStr (js ''x''))]"
  "get_field unprintable_undated_doc (js ''timestamp'') = JNull"
  by (simp_all add: unprintable_undated_doc_def get_field_def js_def u16_def)

lemma unprintable_nameless_doc_fields:
  "get_field unprintable_nameless_doc (js ''name'') = JUndefined"
  "get_field unprintable_nameless_doc (js ''message'') = JObj [(js ''toString'', JStr (js ''x''))]"
  "get_field unprintable_nameless_doc (js ''timestamp'') = JTimestamp 0"
  by (simp_all add: unprintable_nameless_doc_def get_field_def js_def u16_def)

lemma printable_simps:
  "printable (JStr text)" "printable JUndefined" "printable JNull"
  by (simp_all add: printable_def)

lemma renders_examples:
  "renders_part000 \<lparr>doc_id = i, doc_data = ada_doc\<rparr>"
  "renders_part000 \<lparr>doc_id = i, doc_data = nameless_doc\<rparr>"
  "renders_part000 \<lparr>doc_id = i, doc_data = undated_doc\<rparr>"
  by (simp_all add: renders_part000_def ada_doc_fields nameless_doc_fields undated_doc_fields
      printable_simps)

lemma get_part000_fails:
  assumes "db_get e 50 s = Inr snapshot"
    and "submission_blocks_part000 e snapshot = Inl err"
  shows "get_part000 e s =
           (\<lparr>status = 500, sent = js ''Server Error: Could not retrieve submissions.''\<rparr>, s)"
  using assms
  by (simp add: get_part000_def LIMIT_part000_def submissionsHtml_part000_blocks)

lemma try_map_replicate: "f x = Inr y \<Longrightarrow> try_map f (replicate n x) = Inr (replicate n y)"
  by (induction n) simp_all

lemma crowded_docs:
  "docs crowded_store = replicate 501 \<lparr>doc_id = js ''doc'', doc_data = ada_doc\<rparr>"
  by (simp add: crowded_store_def store_of_def)

lemma crowded_snapshot:
  "n \<le> 501 \<Longrightarrow> db_get example_env n crowded_store
     = Inr (replicate n \<lparr>doc_id = js ''doc'', doc_data = ada_doc\<rparr>)"
  by (simp add: db_get_def crowded_docs example_env_def filter_replicate sort_key_replicate
      ada_doc_fields crowded_store_def store_of_def min_def)

subsection \<open>The result cap\<close>

text \<open>
  C5. For a GET request that is answered with the page, the page holds one block for
  each document of the query's snapshot and nothing else between the head and the tail
  of the page; the snapshot has at most 500 documents in \<^verbatim>\<open>index.js\<close> and at most 50 in
  \<^verbatim>\<open>part_000\<close>, however many documents the store holds and whatever order the query
  uses.
\<close>

theorem get_renders_at_most_limit_blocks:
  assumes "http_method req = js ''GET''"
  shows "(status (fst (app_index e now req s)) = 200 \<longrightarrow>
            (\<exists>snapshot blocks.
                db_get e 500 s = Inr snapshot
              \<and> submission_blocks_index e snapshot = Inr blocks
              \<and> length blocks = length snapshot \<and> length blocks \<le> 500
              \<and> sent (fst (app_index e now req s)) =
                  js page_index_head
                  @ (if blocks = [] then js ''<p>No submissions yet.</p>'' else concat blocks)
                  @ js page_index_tail))
       \<and> (status (fst (app_part000 e now req s)) = 200 \<longrightarrow>
            (\<exists>snapshot blocks.
                db_get e 50 s = Inr snapshot
              \<and> submission_blocks_part000 e snapshot = Inr blocks
              \<and> length blocks = length snapshot \<and> length blocks \<le> 50
              \<and> sent (fst (app_part000 e now req s)) =
                  js page_part000_head
                  @ (if blocks = [] then js ''<p>No submissions yet.</p>'' else concat blocks)
                  @ js page_part000_tail))"
proof (intro conjI impI)
  assume "status (fst (app_index e now req s)) = 200"
  then have "status (fst (get_index e s)) = 200"
    using assms by (simp add: app_index_GET)
  from get_index_200 [OF this] obtain snapshot blocks where
    g: "db_get e 500 s = Inr snapshot" "submission_blocks_index e snapshot = Inr blocks"
      "sent (fst (get_index e s)) =
         js page_index_head
         @ (if blocks = [] then js ''<p>No submissions yet.</p>'' else concat blocks)
         @ js page_index_tail"
    by blast
  have "length blocks = length snapshot" "length snapshot \<le> 500"
    using g submission_blocks_index_length db_get_length by blast+
  with g show "\<exists>snapshot blocks.
                db_get e 500 s = Inr snapshot
              \<and> submission_blocks_index e snapshot = Inr blocks
              \<and> length blocks = length snapshot \<and> length blocks \<le> 500
              \<and> sent (fst (app_index e now req s)) =
                  js page_index_head
                  @ (if blocks = [] then js ''<p>No submissions yet.</p>'' else concat blocks)
                  @ js page_index_tail"
    using assms by (auto simp: app_index_GET)
next
  assume "status (fst (app_part000 e now req s)) = 200"
  then have "status (fst (get_part000 e s)) = 200"
    using assms by (simp add: app_part000_GET)
  from get_part000_200 [OF this] obtain snapshot blocks where
    g: "db_get e 50 s = Inr snapshot" "submission_blocks_part000 e snapshot = Inr blocks"
      "sent (fst (get_part000 e s)) =
         js page_part000_head
         @ (if blocks = [] then js ''<p>No submissions yet.</p>'' else concat blocks)
         @ js page_part000_tail"
    by blast
  have "length blocks = length snapshot" "length snapshot \<le> 50"
    using g submission_blocks_part000_length db_get_length by blast+
  with g show "\<exists>snapshot blocks.
                db_get e 50 s = Inr snapshot
              \<and> submission_blocks_part000 e snapshot = Inr blocks
              \<and> length blocks = length snapshot \<and> length blocks \<le> 50
              \<and> sent (fst (app_part000 e now req s)) =
                  js page_part000_head
                  @ (if blocks = [] then js ''<p>No submissions yet.</p>'' else concat blocks)
                  @ js page_part000_tail"
    using assms by (auto simp: app_part000_GET)
qed

text \<open>
  A store of 501 documents: the page of \<^verbatim>\<open>index.js\<close> has 500 blocks, that of
  \<^verbatim>\<open>part_000\<close> has 50.
\<close>

theorem get_renders_at_most_limit_blocks_witness:
  "length (docs crowded_store) = 501
   \<and> status (fst (app_index example_env 0 get_request crowded_store)) = 200
   \<and> (\<exists>blocks. length blocks = 500
        \<and> sent (fst (app_index example_env 0 get_request crowded_store)) =
            js page_index_head @ concat blocks @ js page_index_tail)
   \<and> status (fst (app_part000 example_env 0 get_request crowded_store)) = 200
   \<and> (\<exists>blocks. length blocks = 50
        \<and> sent (fst (app_part000 example_env 0 get_request crowded_store)) =
            js page_part000_head @ concat blocks @ js page_part000_tail)"
proof -
  let ?d = "\<lparr>doc_id = js ''doc'', doc_data = ada_doc\<rparr>"
  have s1: "db_get example_env 500 crowded_store = Inr (replicate 500 ?d)"
    by (rule crowded_snapshot) simp
  have s2: "db_get example_env 50 crowded_store = Inr (replicate 50 ?d)"
    by (rule crowded_snapshot) simp
  obtain b1 where "submission_block_index example_env ada_doc = Inr b1"
    by (simp add: submission_block_index_def and_then_def ada_doc_fields)
  then have b1: "submission_blocks_index example_env (replicate 500 ?d) = Inr (replicate 500 b1)"
    by (simp add: submission_blocks_index_def try_map_replicate)
  have st1: "status (fst (app_index example_env 0 get_request crowded_store)) = 200"
    by (simp add: app_index_GET [OF get_request_GET] get_index_def LIMIT_index_def s1
        submissionsHtml_index_def b1)
  obtain blocks50 where
    b2: "submission_blocks_part000 example_env (replicate 50 ?d) = Inr blocks50"
    using submission_blocks_part000_total [of "replicate 50 ?d" example_env]
    by (auto simp: list_all_iff renders_examples)
  have st2: "status (fst (app_part000 example_env 0 get_request crowded_store)) = 200"
    by (simp add: app_part000_GET [OF get_request_GET] get_part000_page [OF s2 b2])
  have l: "length (docs crowded_store) = 501"
    by (simp add: crowded_docs)
  note inst = get_renders_at_most_limit_blocks [OF get_request_GET, of example_env 0 crowded_store]
  from inst st1 obtain snapshot1 blocks1 where
    i: "db_get example_env 500 crowded_store = Inr snapshot1"
      "length blocks1 = length snapshot1"
      "sent (fst (app_index example_env 0 get_request crowded_store)) =
         js page_index_head
         @ (if blocks1 = [] then js ''<p>No submissions yet.</p>'' else concat blocks1)
         @ js page_index_tail"
    by blast
  from inst st2 obtain snapshot2 blocks2 where
    p: "db_get example_env 50 crowded_store = Inr snapshot2"
      "length blocks2 = length snapshot2"
      "sent (fst (app_part000 example_env 0 get_request crowded_store)) =
         js page_part000_head
         @ (if blocks2 = [] then js ''<p>No submissions yet.</p>'' else concat blocks2)
         @ js page_part000_tail"
    by blast
  have "snapshot1 = replicate 500 ?d"
    using i(1) s1 by simp
  then have l1: "length blocks1 = 500"
    using i(2) by simp
  then have "blocks1 \<noteq> []"
    by auto
  with i(3) l1 have c1: "\<exists>blocks. length blocks = 500
        \<and> sent (fst (app_index example_env 0 get_request crowded_store)) =
            js page_index_head @ concat blocks @ js page_index_tail"
    by auto
  have "snapshot2 = replicate 50 ?d"
    using p(1) s2 by simp
  then have l2: "length blocks2 = 50"
    using p(2) by simp
  then have "blocks2 \<noteq> []"
    by auto
  with p(3) l2 have c2: "\<exists>blocks. length blocks = 50
        \<and> sent (fst (app_part000 example_env 0 get_request crowded_store)) =
            js page_part000_head @ concat blocks @ js page_part000_tail"
    by auto
  from l st1 c1 st2 c2 show ?thesis
    by blast
qed

subsection \<open>Records without a timestamp\<close>

text \<open>
  C6, as the claim states it, fails in both files. In \<^verbatim>\<open>index.js\<close> a record whose
  timestamp is \<^verbatim>\<open>null\<close> makes \<^verbatim>\<open>sub.timestamp.toDate()\<close> throw, and the GET is answered
  500. In \<^verbatim>\<open>part_000\<close> a record whose timestamp is the string \<^verbatim>\<open>yesterday\<close> is truthy and
  has no \<^verbatim>\<open>toDate\<close>, and the GET is answered 500; so is the GET when a record without a
  timestamp has a name that no template can print.
\<close>

theorem non_timestamp_fails_get:
  "get_field undated_doc (js ''timestamp'') = JNull
   \<and> app_index example_env 0 get_request (store_of [undated_doc]) =
       (\<lparr>status = 500, sent = js ''Server Error: Could not retrieve submissions.''\<rparr>,
        store_of [undated_doc])
   \<and> get_field misdated_doc (js ''timestamp'') = JStr (js ''yesterday'')
   \<and> app_part000 example_env 0 get_request (store_of [misdated_doc]) =
       (\<lparr>status = 500, sent = js ''Server Error: Could not retrieve submissions.''\<rparr>,
        store_of [misdated_doc])
   \<and> get_field unprintable_undated_doc (js ''timestamp'') = JNull
   \<and> app_part000 example_env 0 get_request (store_of [unprintable_undated_doc]) =
       (\<lparr>status = 500, sent = js ''Server Error: Could not retrieve submissions.''\<rparr>,
        store_of [unprintable_undated_doc])"
proof -
  have g1: "db_get example_env 500 (store_of [undated_doc])
              = Inr [\<lparr>doc_id = js ''doc'', doc_data = undated_doc\<rparr>]"
    by (rule db_get_single) (simp_all add: undated_doc_fields)
  have b1: "submission_block_index example_env undated_doc = Inl TypeError"
    by (simp add: submission_block_index_def and_then_def undated_doc_fields)
  have a1: "get_index example_env (store_of [undated_doc]) =
       (\<lparr>status = 500, sent = js ''Server Error: Could not retrieve submissions.''\<rparr>,
        store_of [undated_doc])"
    by (simp add: get_index_def LIMIT_index_def g1 submissionsHtml_index_def
        submission_blocks_index_def b1)
  have g2: "db_get example_env 50 (store_of [misdated_doc])
              = Inr [\<lparr>doc_id = js ''doc'', doc_data = misdated_doc\<rparr>]"
    by (rule db_get_single) (simp_all add: misdated_doc_fields)
  have t: "js ''yesterday'' \<noteq> []"
    by (simp add: js_def)
  have "submission_of_doc example_env \<lparr>doc_id = js ''doc'', doc_data = misdated_doc\<rparr>
              = Inl TypeError"
    by (simp add: submission_of_doc_def misdated_doc_fields formattedTimestamp_def t)
  then have "submission_blocks_part000 example_env
               [\<lparr>doc_id = js ''doc'', doc_data = misdated_doc\<rparr>] = Inl TypeError"
    by (simp add: submission_blocks_part000_def submissions_part000_def and_then_def)
  note a2 = get_part000_fails [OF g2 this]
  have g3: "db_get example_env 50 (store_of [unprintable_undated_doc])
              = Inr [\<lparr>doc_id = js ''doc'', doc_data = unprintable_undated_doc\<rparr>]"
    by (rule db_get_single) (simp_all add: unprintable_undated_doc_fields)
  have "submission_of_doc example_env \<lparr>doc_id = js ''doc'', doc_data = unprintable_undated_doc\<rparr>
          = Inr [(js ''id'', JStr (js ''doc'')),
                 (js ''name'', JObj [(js ''toString'', JStr (js ''x''))]),
                 (js ''message'', JStr (js ''hello'')),
                 (js ''timestamp'', JStr (js ''N/A''))]"
    by (simp add: submission_of_doc_def unprintable_undated_doc_def get_field_def keys_distinct
        formattedTimestamp_def js_or_def js_def)
  moreover have "submission_block_part000
          [(js ''id'', JStr (js ''doc'')),
           (js ''name'', JObj [(js ''toString'', JStr (js ''x''))]),
           (js ''message'', JStr (js ''hello'')),
           (js ''timestamp'', JStr (js ''N/A''))] = Inl TypeError"
    by (simp add: submission_block_part000_def and_then_def get_field_def keys_distinct)
  ultimately have "submission_blocks_part000 example_env
          [\<lparr>doc_id = js ''doc'', doc_data = unprintable_undated_doc\<rparr>] = Inl TypeError"
    by (simp add: submission_blocks_part000_def submissions_part000_def and_then_def)
  note a3 = get_part000_fails [OF g3 this]
  show ?thesis
    using a1 a2 a3
    by (simp add: app_index_GET [OF get_request_GET] app_part000_GET [OF get_request_GET]
        undated_doc_fields misdated_doc_fields unprintable_undated_doc_fields)
qed

text \<open>
  C6, amended. In \<^verbatim>\<open>part_000\<close>, for a GET request whose query succeeds and returns only
  records that render (the timestamp is absent, that is missing, \<^verbatim>\<open>null\<close> or otherwise
  falsy, or a Firestore timestamp; the name and the message convert to text, as every
  string and every missing field does), the handler answers 200 with the page, and for
  every record whose timestamp is absent the block is the text below, with \<^verbatim>\<open>N/A\<close> in the
  place of the timestamp, and the paragraph \<^verbatim>\<open><p class="timestamp" data-timestamp="">N/A</p>\<close>
  stands in the page sent.
\<close>

theorem absent_timestamp_shows_NA:
  assumes "http_method req = js ''GET''"
    and "db_get e 50 s = Inr snapshot"
    and "list_all renders_part000 snapshot"
  shows \<open>\<exists>blocks.
           submission_blocks_part000 e snapshot = Inr blocks
         \<and> length blocks = length snapshot
         \<and> app_part000 e now req s =
             (\<lparr>status = 200,
               sent = js page_part000_head
                      @ (if blocks = [] then js ''<p>No submissions yet.</p>''
                         else concat blocks)
                      @ js page_part000_tail\<rparr>, s)
         \<and> (\<forall>i<length snapshot.
               \<not> truthy (get_field (doc_data (snapshot ! i)) (js ''timestamp'')) \<longrightarrow>
                  blocks ! i =
                    js ''\<newline>      <div class="submission">\<newline>        <p class="name">''
                    @ shown_field_part000 (get_field (doc_data (snapshot ! i)) (js ''name''))
                    @ js ''</p>\<newline>        <p class="timestamp" data-timestamp="">N/A</p>\<newline>        <p class="message">''
                    @ shown_field_part000 (get_field (doc_data (snapshot ! i)) (js ''message''))
                    @ js ''</p>\<newline>      </div>\<newline>        ''
                \<and> js_includes (sent (fst (app_part000 e now req s)))
                      (js ''<p class="timestamp" data-timestamp="">N/A</p>''))\<close>
proof -
  from part000_page [OF assms, of now] obtain blocks where
    blocks: "submission_blocks_part000 e snapshot = Inr blocks"
    and len: "length blocks = length snapshot"
    and app: "app_part000 e now req s =
       (\<lparr>status = 200,
         sent = js page_part000_head
                @ (if blocks = [] then js ''<p>No submissions yet.</p>'' else concat blocks)
                @ js page_part000_tail\<rparr>, s)"
    and nth: "\<And>i. i < length snapshot \<Longrightarrow>
       blocks ! i =
         block_template_part000
           (shown_field_part000 (get_field (doc_data (snapshot ! i)) (js ''name'')))
           []
           (shown_timestamp_part000 e (get_field (doc_data (snapshot ! i)) (js ''timestamp'')))
           (shown_field_part000 (get_field (doc_data (snapshot ! i)) (js ''message'')))"
    by blast
  have sent: "sent (fst (app_part000 e now req s)) =
                js page_part000_head
                @ (if blocks = [] then js ''<p>No submissions yet.</p>'' else concat blocks)
                @ js page_part000_tail"
    by (simp add: app)
  have undated: \<open>blocks ! i =
                    js ''\<newline>      <div class="submission">\<newline>        <p class="name">''
                    @ shown_field_part000 (get_field (doc_data (snapshot ! i)) (js ''name''))
                    @ js ''</p>\<newline>        <p class="timestamp" data-timestamp="">N/A</p>\<newline>        <p class="message">''
                    @ shown_field_part000 (get_field (doc_data (snapshot ! i)) (js ''message''))
                    @ js ''</p>\<newline>      </div>\<newline>        ''
                \<and> js_includes (sent (fst (app_part000 e now req s)))
                      (js ''<p class="timestamp" data-timestamp="">N/A</p>'')\<close>
    if i: "i < length snapshot"
      and absent: "\<not> truthy (get_field (doc_data (snapshot ! i)) (js ''timestamp''))" for i
  proof
    have b: "blocks ! i =
         block_template_part000
           (shown_field_part000 (get_field (doc_data (snapshot ! i)) (js ''name'')))
           []
           (js ''N/A'')
           (shown_field_part000 (get_field (doc_data (snapshot ! i)) (js ''message'')))"
      using nth [OF i] by (simp add: shown_timestamp_absent [OF absent])
    then show \<open>blocks ! i =
                    js ''\<newline>      <div class="submission">\<newline>        <p class="name">''
                    @ shown_field_part000 (get_field (doc_data (snapshot ! i)) (js ''name''))
                    @ js ''</p>\<newline>        <p class="timestamp" data-timestamp="">N/A</p>\<newline>        <p class="message">''
                    @ shown_field_part000 (get_field (doc_data (snapshot ! i)) (js ''message''))
                    @ js ''</p>\<newline>      </div>\<newline>        ''\<close>
      by (simp only: template_timestamp_NA)
    have "i < length blocks"
      using i len by simp
    then show \<open>js_includes (sent (fst (app_part000 e now req s)))
                      (js ''<p class="timestamp" data-timestamp="">N/A</p>'')\<close>
      unfolding sent
      by (rule page_includes_block_part) (simp only: b template_timestamp_NA_split)
  qed
  from blocks len app undated show ?thesis
    by blast
qed

theorem absent_timestamp_shows_NA_witness:
  \<open>get_field undated_doc (js ''timestamp'') = JNull
   \<and> app_part000 example_env 0 get_request (store_of [undated_doc]) =
       (\<lparr>status = 200,
         sent = js page_part000_head
                @ js ''\<newline>      <div class="submission">\<newline>        <p class="name">Ada</p>\<newline>        <p class="timestamp" data-timestamp="">N/A</p>\<newline>        <p class="message">hello</p>\<newline>      </div>\<newline>        ''
                @ js page_part000_tail\<rparr>,
        store_of [undated_doc])
   \<and> js_includes (sent (fst (app_part000 example_env 0 get_request (store_of [undated_doc]))))
         (js ''<p class="timestamp" data-timestamp="">N/A</p>'')\<close>
proof -
  let ?d = "\<lparr>doc_id = js ''doc'', doc_data = undated_doc\<rparr>"
  have g: "db_get example_env 50 (store_of [undated_doc]) = Inr [?d]"
    by (rule db_get_single) (simp_all add: undated_doc_fields)
  have a: "list_all renders_part000 [?d]"
    by (simp add: renders_examples)
  from absent_timestamp_shows_NA [OF get_request_GET g a, of 0]
  obtain blocks where
    len: "length blocks = length [?d]"
    and app: "app_part000 example_env 0 get_request (store_of [undated_doc]) =
             (\<lparr>status = 200,
               sent = js page_part000_head
                      @ (if blocks = [] then js ''<p>No submissions yet.</p>''
                         else concat blocks)
                      @ js page_part000_tail\<rparr>, store_of [undated_doc])"
    and nth: \<open>\<And>i. i < length [?d] \<Longrightarrow>
                \<not> truthy (get_field (doc_data ([?d] ! i)) (js ''timestamp'')) \<Longrightarrow>
                  blocks ! i =
                    js ''\<newline>      <div class="submission">\<newline>        <p class="name">''
                    @ shown_field_part000 (get_field (doc_data ([?d] ! i)) (js ''name''))
                    @ js ''</p>\<newline>        <p class="timestamp" data-timestamp="">N/A</p>\<newline>        <p class="message">''
                    @ shown_field_part000 (get_field (doc_data ([?d] ! i)) (js ''message''))
                    @ js ''</p>\<newline>      </div>\<newline>        ''
                \<and> js_includes (sent (fst (app_part000 example_env 0 get_request
                                          (store_of [undated_doc]))))
                      (js ''<p class="timestamp" data-timestamp="">N/A</p>'')\<close>
    by blast
  from len obtain b where b: "blocks = [b]"
    by (cases blocks) auto
  from nth [of 0] b have shape: \<open>b =
      js ''\<newline>      <div class="submission">\<newline>        <p class="name">''
      @ js ''Ada''
      @ js ''</p>\<newline>        <p class="timestamp" data-timestamp="">N/A</p>\<newline>        <p class="message">''
      @ js ''hello''
      @ js ''</p>\<newline>      </div>\<newline>        ''\<close>
    and inc: \<open>js_includes (sent (fst (app_part000 example_env 0 get_request
                                    (store_of [undated_doc]))))
               (js ''<p class="timestamp" data-timestamp="">N/A</p>'')\<close>
    by (simp_all add: undated_doc_fields shown_examples)
  have \<open>b = js ''\<newline>      <div class="submission">\<newline>        <p class="name">Ada</p>\<newline>        <p class="timestamp" data-timestamp="">N/A</p>\<newline>        <p class="message">hello</p>\<newline>      </div>\<newline>        ''\<close>
    unfolding shape by (simp add: js_def)
  with app b inc show ?thesis
    by (simp add: undated_doc_fields)
qed

subsection \<open>Records without a name or a message\<close>

text \<open>
  C10, as the claim states it, fails: it promises the placeholder for every GET request
  and every stored record without a name. In \<^verbatim>\<open>part_000\<close> the GET is answered 500, with no
  block at all, when the nameless record has the string \<^verbatim>\<open>yesterday\<close> as its timestamp,
  when the store cannot be reached, and when the nameless record has a message that no
  template can print.
\<close>

theorem part000_fails_with_nameless_record:
  "get_field nameless_misdated_doc (js ''name'') = JUndefined
   \<and> app_part000 example_env 0 get_request (store_of [nameless_misdated_doc]) =
       (\<lparr>status = 500, sent = js ''Server Error: Could not retrieve submissions.''\<rparr>,
        store_of [nameless_misdated_doc])
   \<and> get_field nameless_doc (js ''name'') = JUndefined
   \<and> app_part000 example_env 0 get_request (offline_store_of [nameless_doc]) =
       (\<lparr>status = 500, sent = js ''Server Error: Could not retrieve submissions.''\<rparr>,
        offline_store_of [nameless_doc])
   \<and> get_field unprintable_nameless_doc (js ''name'') = JUndefined
   \<and> app_part000 example_env 0 get_request (store_of [unprintable_nameless_doc]) =
       (\<lparr>status = 500, sent = js ''Server Error: Could not retrieve submissions.''\<rparr>,
        store_of [unprintable_nameless_doc])"
proof -
  have g1: "db_get example_env 50 (store_of [nameless_misdated_doc])
              = Inr [\<lparr>doc_id = js ''doc'', doc_data = nameless_misdated_doc\<rparr>]"
    by (rule db_get_single) (simp_all add: nameless_misdated_doc_fields)
  have t: "js ''yesterday'' \<noteq> []"
    by (simp add: js_def)
  have "submission_of_doc example_env \<lparr>doc_id = js ''doc'', doc_data = nameless_misdated_doc\<rparr>
          = Inl TypeError"
    by (simp add: submission_of_doc_def nameless_misdated_doc_fields formattedTimestamp_def t)
  then have "submission_blocks_part000 example_env
               [\<lparr>doc_id = js ''doc'', doc_data = nameless_misdated_doc\<rparr>] = Inl TypeError"
    by (simp add: submission_blocks_part000_def submissions_part000_def and_then_def)
  note a1 = get_part000_fails [OF g1 this]
  have a2: "get_part000 example_env (offline_store_of [nameless_doc]) =
       (\<lparr>status = 500, sent = js ''Server Error: Could not retrieve submissions.''\<rparr>,
        offline_store_of [nameless_doc])"
    by (simp add: get_part000_def db_get_def offline_store_of_def)
  have g3: "db_get example_env 50 (store_of [unprintable_nameless_doc])
              = Inr [\<lparr>doc_id = js ''doc'', doc_data = unprintable_nameless_doc\<rparr>]"
    by (rule db_get_single) (simp_all add: unprintable_nameless_doc_fields)
  have "submission_of_doc example_env \<lparr>doc_id = js ''doc'', doc_data = unprintable_nameless_doc\<rparr>
          = Inr [(js ''id'', JStr (js ''doc'')),
                 (js ''name'', JStr (js ''N/A'')),
                 (js ''message'', JObj [(js ''toString'', JStr (js ''x''))]),
                 (js ''timestamp'', JStr (js ''1/1/1970, 12:00:00 AM''))]"
    by (simp add: submission_of_doc_def unprintable_nameless_doc_fields formattedTimestamp_def
        js_or_def example_env_def)
  moreover have "submission_block_part000
          [(js ''id'', JStr (js ''doc'')),
           (js ''name'', JStr (js ''N/A'')),
           (js ''message'', JObj [(js ''toString'', JStr (js ''x''))]),
           (js ''timestamp'', JStr (js ''1/1/1970, 12:00:00 AM''))] = Inl TypeError"
    by (simp add: submission_block_part000_def and_then_def get_field_def keys_distinct
        js_or_def)
  ultimately have "submission_blocks_part000 example_env
          [\<lparr>doc_id = js ''doc'', doc_data = unprintable_nameless_doc\<rparr>] = Inl TypeError"
    by (simp add: submission_blocks_part000_def submissions_part000_def and_then_def)
  note a3 = get_part000_fails [OF g3 this]
  show ?thesis
    using a1 a2 a3
    by (simp add: app_part000_GET [OF get_request_GET] nameless_misdated_doc_fields
        nameless_doc_fields unprintable_nameless_doc_fields)
qed

text \<open>
  C10, amended. In \<^verbatim>\<open>part_000\<close>, for a GET request whose query succeeds and returns only
  records that render (the timestamp is absent or a Firestore timestamp; the name and the
  message convert to text, as every string and every missing field does), the handler
  answers 200 with the page; for every record whose name is missing (or otherwise falsy)
  the block is the text below, with \<^verbatim>\<open>N/A\<close> in the place of the name, and the paragraph
  \<^verbatim>\<open><p class="name">N/A</p>\<close> stands in the page sent; likewise for a missing message
  and \<^verbatim>\<open><p class="message">N/A</p>\<close>.
\<close>

theorem missing_name_or_message_shows_NA:
  assumes "http_method req = js ''GET''"
    and "db_get e 50 s = Inr snapshot"
    and "list_all renders_part000 snapshot"
  shows \<open>\<exists>blocks.
           submission_blocks_part000 e snapshot = Inr blocks
         \<and> length blocks = length snapshot
         \<and> app_part000 e now req s =
             (\<lparr>status = 200,
               sent = js page_part000_head
                      @ (if blocks = [] then js ''<p>No submissions yet.</p>''
                         else concat blocks)
                      @ js page_part000_tail\<rparr>, s)
         \<and> (\<forall>i<length snapshot.
               (\<not> truthy (get_field (doc_data (snapshot ! i)) (js ''name'')) \<longrightarrow>
                  blocks ! i =
                    js ''\<newline>      <div class="submission">\<newline>        <p class="name">N/A</p>\<newline>        <p class="timestamp" data-timestamp="">''
                    @ shown_timestamp_part000 e
                        (get_field (doc_data (snapshot ! i)) (js ''timestamp''))
                    @ js ''</p>\<newline>        <p class="message">''
                    @ shown_field_part000 (get_field (doc_data (snapshot ! i)) (js ''message''))
                    @ js ''</p>\<newline>      </div>\<newline>        ''
                \<and> js_includes (sent (fst (app_part000 e now req s)))
                      (js ''<p class="name">N/A</p>''))
             \<and> (\<not> truthy (get_field (doc_data (snapshot ! i)) (js ''message'')) \<longrightarrow>
                  blocks ! i =
                    js ''\<newline>      <div class="submission">\<newline>        <p class="name">''
                    @ shown_field_part000 (get_field (doc_data (snapshot ! i)) (js ''name''))
                    @ js ''</p>\<newline>        <p class="timestamp" data-timestamp="">''
                    @ shown_timestamp_part000 e
                        (get_field (doc_data (snapshot ! i)) (js ''timestamp''))
                    @ js ''</p>\<newline>        <p class="message">N/A</p>\<newline>      </div>\<newline>        ''
                \<and> js_includes (sent (fst (app_part000 e now req s)))
                      (js ''<p class="message">N/A</p>'')))\<close>
proof -
  from part000_page [OF assms, of now] obtain blocks where
    blocks: "submission_blocks_part000 e snapshot = Inr blocks"
    and len: "length blocks = length snapshot"
    and app: "app_part000 e now req s =
       (\<lparr>status = 200,
         sent = js page_part000_head
                @ (if blocks = [] then js ''<p>No submissions yet.</p>'' else concat blocks)
                @ js page_part000_tail\<rparr>, s)"
    and nth: "\<And>i. i < length snapshot \<Longrightarrow>
       blocks ! i =
         block_template_part000
           (shown_field_part000 (get_field (doc_data (snapshot ! i)) (js ''name'')))
           []
           (shown_timestamp_part000 e (get_field (doc_data (snapshot ! i)) (js ''timestamp'')))
           (shown_field_part000 (get_field (doc_data (snapshot ! i)) (js ''message'')))"
    by blast
  have sent: "sent (fst (app_part000 e now req s)) =
                js page_part000_head
                @ (if blocks = [] then js ''<p>No submissions yet.</p>'' else concat blocks)
                @ js page_part000_tail"
    by (simp add: app)
  have name: \<open>blocks ! i =
                    js ''\<newline>      <div class="submission">\<newline>        <p class="name">N/A</p>\<newline>        <p class="timestamp" data-timestamp="">''
                    @ shown_timestamp_part000 e
                        (get_field (doc_data (snapshot ! i)) (js ''timestamp''))
                    @ js ''</p>\<newline>        <p class="message">''
                    @ shown_field_part000 (get_field (doc_data (snapshot ! i)) (js ''message''))
                    @ js ''</p>\<newline>      </div>\<newline>        ''
                \<and> js_includes (sent (fst (app_part000 e now req s)))
                      (js ''<p class="name">N/A</p>'')\<close>
    if i: "i < length snapshot"
      and absent: "\<not> truthy (get_field (doc_data (snapshot ! i)) (js ''name''))" for i
  proof
    have b: "blocks ! i =
         block_template_part000 (js ''N/A'') []
           (shown_timestamp_part000 e (get_field (doc_data (snapshot ! i)) (js ''timestamp'')))
           (shown_field_part000 (get_field (doc_data (snapshot ! i)) (js ''message'')))"
      using nth [OF i] by (simp add: shown_field_absent [OF absent])
    then show \<open>blocks ! i =
                    js ''\<newline>      <div class="submission">\<newline>        <p class="name">N/A</p>\<newline>        <p class="timestamp" data-timestamp="">''
                    @ shown_timestamp_part000 e
                        (get_field (doc_data (snapshot ! i)) (js ''timestamp''))
                    @ js ''</p>\<newline>        <p class="message">''
                    @ shown_field_part000 (get_field (doc_data (snapshot ! i)) (js ''message''))
                    @ js ''</p>\<newline>      </div>\<newline>        ''\<close>
      by (simp only: template_name_NA)
    have "i < length blocks"
      using i len by simp
    then show \<open>js_includes (sent (fst (app_part000 e now req s)))
                      (js ''<p class="name">N/A</p>'')\<close>
      unfolding sent
      by (rule page_includes_block_part) (simp only: b template_name_NA_split)
  qed
  have message: \<open>blocks ! i =
                    js ''\<newline>      <div class="submission">\<newline>        <p class="name">''
                    @ shown_field_part000 (get_field (doc_data (snapshot ! i)) (js ''name''))
                    @ js ''</p>\<newline>        <p class="timestamp" data-timestamp="">''
                    @ shown_timestamp_part000 e
                        (get_field (doc_data (snapshot ! i)) (js ''timestamp''))
                    @ js ''</p>\<newline>        <p class="message">N/A</p>\<newline>      </div>\<newline>        ''
                \<and> js_includes (sent (fst (app_part000 e now req s)))
                      (js ''<p class="message">N/A</p>'')\<close>
    if i: "i < length snapshot"
      and absent: "\<not> truthy (get_field (doc_data (snapshot ! i)) (js ''message''))" for i
  proof
    have b: "blocks ! i =
         block_template_part000
           (shown_field_part000 (get_field (doc_data (snapshot ! i)) (js ''name'')))
           []
           (shown_timestamp_part000 e (get_field (doc_data (snapshot ! i)) (js ''timestamp'')))
           (js ''N/A'')"
      using nth [OF i] by (simp add: shown_field_absent [OF absent])
    then show \<open>blocks ! i =
                    js ''\<newline>      <div class="submission">\<newline>        <p class="name">''
                    @ shown_field_part000 (get_field (doc_data (snapshot ! i)) (js ''name''))
                    @ js ''</p>\<newline>        <p class="timestamp" data-timestamp="">''
                    @ shown_timestamp_part000 e
                        (get_field (doc_data (snapshot ! i)) (js ''timestamp''))
                    @ js ''</p>\<newline>        <p class="message">N/A</p>\<newline>      </div>\<newline>        ''\<close>
      by (simp only: template_message_NA)
    have "i < length blocks"
      using i len by simp
    then show \<open>js_includes (sent (fst (app_part000 e now req s)))
                      (js ''<p class="message">N/A</p>'')\<close>
      unfolding sent
      by (rule page_includes_block_part) (simp only: b template_message_NA_split)
  qed
  from blocks len app name message show ?thesis
    by blast
qed

theorem missing_name_or_message_shows_NA_witness:
  \<open>get_field nameless_doc (js ''name'') = JUndefined
   \<and> app_part000 example_env 0 get_request (store_of [nameless_doc]) =
       (\<lparr>status = 200,
         sent = js page_part000_head
                @ js ''\<newline>      <div class="submission">\<newline>        <p class="name">N/A</p>\<newline>        <p class="timestamp" data-timestamp="">1/1/1970, 12:00:00 AM</p>\<newline>        <p class="message">hello</p>\<newline>      </div>\<newline>        ''
                @ js page_part000_tail\<rparr>,
        store_of [nameless_doc])
   \<and> js_includes (sent (fst (app_part000 example_env 0 get_request (store_of [nameless_doc]))))
         (js ''<p class="name">N/A</p>'')\<close>
proof -
  let ?d = "\<lparr>doc_id = js ''doc'', doc_data = nameless_doc\<rparr>"
  have g: "db_get example_env 50 (store_of [nameless_doc]) = Inr [?d]"
    by (rule db_get_single) (simp_all add: nameless_doc_fields)
  have a: "list_all renders_part000 [?d]"
    by (simp add: renders_examples)
  from missing_name_or_message_shows_NA [OF get_request_GET g a, of 0]
  obtain blocks where
    len: "length blocks = length [?d]"
    and app: "app_part000 example_env 0 get_request (store_of [nameless_doc]) =
             (\<lparr>status = 200,
               sent = js page_part000_head
                      @ (if blocks = [] then js ''<p>No submissions yet.</p>''
                         else concat blocks)
                      @ js page_part000_tail\<rparr>, store_of [nameless_doc])"
    and nth: \<open>\<And>i. i < length [?d] \<Longrightarrow>
                \<not> truthy (get_field (doc_data ([?d] ! i)) (js ''name'')) \<Longrightarrow>
                  blocks ! i =
                    js ''\<newline>      <div class="submission">\<newline>        <p class="name">N/A</p>\<newline>        <p class="timestamp" data-timestamp="">''
                    @ shown_timestamp_part000 example_env
                        (get_field (doc_data ([?d] ! i)) (js ''timestamp''))
                    @ js ''</p>\<newline>        <p class="message">''
                    @ shown_field_part000 (get_field (doc_data ([?d] ! i)) (js ''message''))
                    @ js ''</p>\<newline>      </div>\<newline>        ''
                \<and> js_includes (sent (fst (app_part000 example_env 0 get_request
                                          (store_of [nameless_doc]))))
                      (js ''<p class="name">N/A</p>'')\<close>
    by blast
  from len obtain b where b: "blocks = [b]"
    by (cases blocks) auto
  from nth [of 0] b have shape: \<open>b =
      js ''\<newline>      <div class="submission">\<newline>        <p class="name">N/A</p>\<newline>        <p class="timestamp" data-timestamp="">''
      @ js ''1/1/1970, 12:00:00 AM''
      @ js ''</p>\<newline>        <p class="message">''
      @ js ''hello''
      @ js ''</p>\<newline>      </div>\<newline>        ''\<close>
    and inc: \<open>js_includes (sent (fst (app_part000 example_env 0 get_request
                                    (store_of [nameless_doc]))))
               (js ''<p class="name">N/A</p>'')\<close>
    by (simp_all add: nameless_doc_fields shown_examples)
  have \<open>b = js ''\<newline>      <div class="submission">\<newline>        <p class="name">N/A</p>\<newline>        <p class="timestamp" data-timestamp="">1/1/1970, 12:00:00 AM</p>\<newline>        <p class="message">hello</p>\<newline>      </div>\<newline>        ''\<close>
    unfolding shape by (simp add: js_def)
  with app b inc show ?thesis
    by (simp add: nameless_doc_fields)
qed

subsection \<open>The machine-readable timestamp\<close>

text \<open>
  In \<^verbatim>\<open>index.js\<close> the block of a record with a timestamp carries the escaped ISO
  string of the instant in \<^verbatim>\<open>data-timestamp\<close>, beside the escaped local text.
\<close>

lemma index_block_carries_iso:
  assumes "get_field sub (js ''timestamp'') = JTimestamp t"
    and "js_String (escapeHtml_index (get_field sub (js ''name''))) = Inr name"
    and "js_String (escapeHtml_index (get_field sub (js ''message''))) = Inr message"
  shows "submission_block_index e sub =
           Inr (block_template_index name
                  (escape_chain_index (toISOString e t))
                  (escape_chain_index (toLocaleString_enUS e t))
                  message)"
  using assms by (simp add: submission_block_index_def and_then_def)

text \<open>
  C7. The claim asks for a machine-readable timestamp in the data attribute of every
  rendered block. In \<^verbatim>\<open>part_000\<close> the attribute is \<^verbatim>\<open>sub.rawTimestamp || ""\<close>, and the
  objects pushed at lines 83 to 88 have no property \<^verbatim>\<open>rawTimestamp\<close>: the attribute is
  empty in every block (lemma \<open>submission_blocks_part000_nth\<close>). For a store holding
  one record with the timestamp of the epoch, the page is the following.
\<close>

theorem part000_data_timestamp_is_empty:
  \<open>get_field ada_doc (js ''timestamp'') = JTimestamp 0
   \<and> app_part000 example_env 0 get_request (store_of [ada_doc]) =
       (\<lparr>status = 200,
         sent = js page_part000_head
                @ js ''\<newline>      <div class="submission">\<newline>        <p class="name">Ada</p>\<newline>        <p class="timestamp" data-timestamp="">1/1/1970, 12:00:00 AM</p>\<newline>        <p class="message">hello</p>\<newline>      </div>\<newline>        ''
                @ js page_part000_tail\<rparr>,
        store_of [ada_doc])\<close>
proof -
  let ?d = "\<lparr>doc_id = js ''doc'', doc_data = ada_doc\<rparr>"
  have g: "db_get example_env 50 (store_of [ada_doc]) = Inr [?d]"
    by (rule db_get_single) (simp_all add: ada_doc_fields)
  have a: "list_all renders_part000 [?d]"
    by (simp add: renders_examples)
  from submission_blocks_part000_total [OF a, of example_env] obtain blocks where
    blocks: "submission_blocks_part000 example_env [?d] = Inr blocks"
    by blast
  have "length blocks = length [?d]"
    using blocks by (rule submission_blocks_part000_length)
  then obtain b where b: "blocks = [b]"
    by (cases blocks) auto
  have "b = block_template_part000 (js ''Ada'') [] (js ''1/1/1970, 12:00:00 AM'') (js ''hello'')"
    using submission_blocks_part000_nth [OF blocks, of 0] b
    by (simp add: ada_doc_fields shown_examples)
  also have \<open>\<dots> = js ''\<newline>      <div class="submission">\<newline>        <p class="name">Ada</p>\<newline>        <p class="timestamp" data-timestamp="">1/1/1970, 12:00:00 AM</p>\<newline>        <p class="message">hello</p>\<newline>      </div>\<newline>        ''\<close>
    by (simp add: block_template_part000_def js_def)
  finally show ?thesis
    using get_part000_page [OF g blocks] b
    by (simp add: app_part000_GET [OF get_request_GET] ada_doc_fields)
qed

subsection \<open>Repeated GET requests\<close>

text \<open>
  C8. A GET request leaves the store as it was, and its response depends on the store
  and the environment alone: a second GET, whatever its headers, body and time, gets
  the response of the first. This holds in both files.
\<close>

theorem repeated_get_same_response:
  assumes "http_method r1 = js ''GET''" and "http_method r2 = js ''GET''"
  shows "snd (app_index e t1 r1 s) = s
       \<and> fst (app_index e t2 r2 (snd (app_index e t1 r1 s))) = fst (app_index e t1 r1 s)
       \<and> snd (app_part000 e t1 r1 s) = s
       \<and> fst (app_part000 e t2 r2 (snd (app_part000 e t1 r1 s))) = fst (app_part000 e t1 r1 s)"
  using assms
  by (simp add: app_index_GET app_part000_GET get_index_store get_part000_store)

theorem repeated_get_same_response_witness:
  "snd (app_index example_env 0 get_request (store_of [ada_doc])) = store_of [ada_doc]
   \<and> fst (app_index example_env 1000 html_get_request
            (snd (app_index example_env 0 get_request (store_of [ada_doc]))))
       = fst (app_index example_env 0 get_request (store_of [ada_doc]))
   \<and> snd (app_part000 example_env 0 get_request (store_of [ada_doc])) = store_of [ada_doc]
   \<and> fst (app_part000 example_env 1000 html_get_request
            (snd (app_part000 example_env 0 get_request (store_of [ada_doc]))))
       = fst (app_part000 example_env 0 get_request (store_of [ada_doc]))"
proof -
  have "http_method html_get_request = js ''GET''"
    by (simp add: html_get_request_def)
  from repeated_get_same_response [OF get_request_GET this] show ?thesis .
qed

section \<open>The cap, counted in the page text\<close>

text \<open>
  The opening tag of a block starts with \<^verbatim>\<open><\<close> (code unit 60). A text without that
  character holds no tag and cannot complete one, so the tags of a page are those of its
  literal parts.
\<close>

lemma block_marker_code:
  "block_marker = [60, 100, 105, 118, 32, 99, 108, 97, 115, 115, 61, 34, 115, 117, 98, 109,
                   105, 115, 115, 105, 111, 110, 34, 62]"
  by (simp add: block_marker_def js_def u16_def)

lemma occurrences_Nil: "occurrences block_marker [] = 0"
  by (simp add: block_marker_code)

lemma occurrences_skip:
  "x \<noteq> 60 \<Longrightarrow> occurrences block_marker (x # xs) = occurrences block_marker xs"
  by (simp add: block_marker_code)

lemma occurrences_at_lt:
  "occurrences block_marker (60 # xs) =
     (if prefix [100, 105, 118, 32, 99, 108, 97, 115, 115, 61, 34, 115, 117, 98, 109,
                 105, 115, 115, 105, 111, 110, 34, 62] xs then 1 else 0)
     + occurrences block_marker xs"
  by (simp add: block_marker_code)

lemma occurrences_free:
  "60 \<notin> set a \<Longrightarrow> occurrences block_marker (a @ b) = occurrences block_marker b"
  by (induction a) (simp_all add: occurrences_skip del: occurrences.simps)

lemmas count_simps = occurrences_Nil occurrences_skip occurrences_at_lt occurrences_free

lemma head_index:
  "occurrences block_marker (js page_index_head @ rest) = occurrences block_marker rest"
  unfolding page_index_head_def js_def
  by (simp add: count_simps u16_def del: occurrences.simps)

lemma head_part000:
  "occurrences block_marker (js page_part000_head @ rest) = occurrences block_marker rest"
  unfolding page_part000_head_def js_def
  by (simp add: count_simps u16_def del: occurrences.simps)

lemma tails:
  "occurrences block_marker (js page_index_tail) = 0"
  "occurrences block_marker (js page_part000_tail) = 0"
  unfolding page_index_tail_def page_part000_tail_def js_def
  by (simp_all add: count_simps u16_def del: occurrences.simps)

lemma placeholder_count:
  "occurrences block_marker (js ''<p>No submissions yet.</p>'' @ rest) = occurrences block_marker rest"
  unfolding js_def
  by (simp add: count_simps u16_def del: occurrences.simps)

lemma error_count:
  "occurrences block_marker (js ''Server Error: Could not retrieve submissions.'') = 0"
  unfolding js_def
  by (simp add: count_simps u16_def del: occurrences.simps)

lemma block_index_count:
  assumes "60 \<notin> set n" "60 \<notin> set i" "60 \<notin> set l" "60 \<notin> set m"
  shows "occurrences block_marker (block_template_index n i l m @ rest)
           = Suc (occurrences block_marker rest)"
  unfolding block_template_index_def js_def
  using assms by (simp add: count_simps u16_def del: occurrences.simps)

lemma block_part000_count:
  assumes "60 \<notin> set n" "60 \<notin> set r" "60 \<notin> set t" "60 \<notin> set m"
  shows "occurrences block_marker (block_template_part000 n r t m @ rest)
           = Suc (occurrences block_marker rest)"
  unfolding block_template_part000_def js_def
  using assms by (simp add: count_simps u16_def del: occurrences.simps)

lemma concat_count:
  assumes "\<And>b rest. b \<in> set blocks \<Longrightarrow>
             occurrences block_marker (b @ rest) = Suc (occurrences block_marker rest)"
  shows "occurrences block_marker (concat blocks @ rest)
           = length blocks + occurrences block_marker rest"
  using assms by (induction blocks) (simp_all del: occurrences.simps)

lemma lt_free_index: "60 \<notin> set (escape_chain_index s)"
  using special_notin_chain_index(1) [of s] by (simp add: u16_def)

lemma lt_free_part000: "60 \<notin> set (escape_chain_part000 s)"
  using special_notin_chain_part000(1) [of s] by (simp add: u16_def)

lemma is_string_cases: "is_string v \<Longrightarrow> \<exists>s. v = JStr s"
  by (cases v) simp_all

lemma try_map_set: "try_map f xs = Inr ys \<Longrightarrow> y \<in> set ys \<Longrightarrow> \<exists>x\<in>set xs. f x = Inr y"
  by (induction xs arbitrary: ys) (auto split: sum.splits)

lemma block_index_of_strings:
  assumes "stored_as_strings d" and "submission_block_index e (doc_data d) = Inr b"
  shows "occurrences block_marker (b @ rest) = Suc (occurrences block_marker rest)"
proof -
  from assms(1) obtain n m where
    nm: "get_field (doc_data d) (js ''name'') = JStr n"
      "get_field (doc_data d) (js ''message'') = JStr m"
    unfolding stored_as_strings_def using is_string_cases by blast
  from assms(2) obtain t where t: "get_field (doc_data d) (js ''timestamp'') = JTimestamp t"
    by (cases "get_field (doc_data d) (js ''timestamp'')")
      (simp_all add: submission_block_index_def and_then_def nm)
  have "b = block_template_index (escape_chain_index n)
              (escape_chain_index (toISOString e t))
              (escape_chain_index (toLocaleString_enUS e t))
              (escape_chain_index m)"
    using assms(2) by (simp add: submission_block_index_def and_then_def nm t)
  then show ?thesis
    by (simp add: block_index_count lt_free_index del: occurrences.simps)
qed

lemma blocks_index_counted:
  assumes "submission_blocks_index e snapshot = Inr blocks"
    and "list_all stored_as_strings snapshot"
    and "b \<in> set blocks"
  shows "occurrences block_marker (b @ rest) = Suc (occurrences block_marker rest)"
proof -
  from try_map_set [OF assms(1) [unfolded submission_blocks_index_def] assms(3)]
  obtain d where d: "d \<in> set snapshot" "submission_block_index e (doc_data d) = Inr b"
    by auto
  with assms(2) have "stored_as_strings d"
    by (simp add: list_all_iff)
  from block_index_of_strings [OF this d(2)] show ?thesis .
qed

lemma shown_field_lt_free: "is_string v \<Longrightarrow> 60 \<notin> set (shown_field_part000 v)"
  by (cases v) (simp_all add: shown_field_part000_def js_or_def lt_free_part000)

lemma shown_timestamp_lt_free: "60 \<notin> set (shown_timestamp_part000 e ts)"
  by (simp add: shown_timestamp_part000_def lt_free_part000 split: sum.splits)

lemma blocks_part000_counted:
  assumes "submission_blocks_part000 e snapshot = Inr blocks"
    and "list_all stored_as_strings snapshot"
    and "b \<in> set blocks"
  shows "occurrences block_marker (b @ rest) = Suc (occurrences block_marker rest)"
proof -
  have len: "length blocks = length snapshot"
    using assms(1) by (rule submission_blocks_part000_length)
  from assms(3) obtain i where i: "i < length blocks" "b = blocks ! i"
    by (auto simp: in_set_conv_nth)
  then have "stored_as_strings (snapshot ! i)"
    using assms(2) len by (simp add: list_all_length)
  then show ?thesis
    using submission_blocks_part000_nth [OF assms(1), of i] i len
    by (simp add: block_part000_count shown_field_lt_free shown_timestamp_lt_free
        stored_as_strings_def del: occurrences.simps)
qed

lemma get_index_count:
  assumes "list_all stored_as_strings (orderByTimestampDesc e (docs s))"
  shows "occurrences block_marker (sent (fst (get_index e s))) \<le> 500"
proof (cases "db_get e 500 s")
  case (Inl err)
  then show ?thesis
    by (simp add: get_index_def LIMIT_index_def error_count del: occurrences.simps)
next
  case (Inr snapshot)
  then have snap: "snapshot = take 500 (orderByTimestampDesc e (docs s))"
    by (auto simp: db_get_def split: if_splits)
  then have strings: "list_all stored_as_strings snapshot"
    using assms by (auto simp: list_all_iff dest: in_set_takeD)
  show ?thesis
  proof (cases "submissionsHtml_index e snapshot")
    case (Inl err)
    with Inr show ?thesis
      by (simp add: get_index_def LIMIT_index_def error_count del: occurrences.simps)
  next
    case html: (Inr submissionsHtml)
    show ?thesis
    proof (cases "snapshot = []")
      case True
      with Inr html show ?thesis
        using placeholder_count [of "js page_index_tail"]
        by (auto simp: get_index_def LIMIT_index_def submissionsHtml_index_def head_index
            tails simp del: occurrences.simps)
    next
      case False
      with html obtain blocks where
        blocks: "submission_blocks_index e snapshot = Inr blocks"
        and h: "submissionsHtml = concat blocks"
        by (auto simp: submissionsHtml_index_def join_empty_separator split: sum.splits)
      have "occurrences block_marker (concat blocks @ js page_index_tail)
              = length blocks + occurrences block_marker (js page_index_tail)"
        by (rule concat_count) (rule blocks_index_counted [OF blocks strings])
      moreover have "length blocks = length snapshot"
        using blocks by (rule submission_blocks_index_length)
      moreover have "length snapshot \<le> 500"
        using snap by simp
      ultimately show ?thesis
        using Inr html h
        by (simp add: get_index_def LIMIT_index_def head_index tails del: occurrences.simps)
    qed
  qed
qed

lemma get_part000_count:
  assumes "list_all stored_as_strings (orderByTimestampDesc e (docs s))"
  shows "occurrences block_marker (sent (fst (get_part000 e s))) \<le> 50"
proof (cases "db_get e 50 s")
  case (Inl err)
  then show ?thesis
    by (simp add: get_part000_def LIMIT_part000_def error_count del: occurrences.simps)
next
  case (Inr snapshot)
  then have snap: "snapshot = take 50 (orderByTimestampDesc e (docs s))"
    by (auto simp: db_get_def split: if_splits)
  then have strings: "list_all stored_as_strings snapshot"
    using assms by (auto simp: list_all_iff dest: in_set_takeD)
  show ?thesis
  proof (cases "submission_blocks_part000 e snapshot")
    case (Inl err)
    with Inr show ?thesis
      by (simp add: get_part000_fails error_count del: occurrences.simps)
  next
    case blocks: (Inr blocks)
    have c: "occurrences block_marker (concat blocks @ js page_part000_tail)
              = length blocks + occurrences block_marker (js page_part000_tail)"
      by (rule concat_count) (rule blocks_part000_counted [OF blocks strings])
    have l: "length blocks = length snapshot"
      using blocks by (rule submission_blocks_part000_length)
    have "length snapshot \<le> 50"
      using snap by simp
    with c l show ?thesis
      using get_part000_page [OF Inr blocks] placeholder_count [of "js page_part000_tail"]
      by (auto simp: head_part000 tails simp del: occurrences.simps)
  qed
qed

text \<open>
  When the documents the query returns hold strings as name and message, the page of a
  GET request holds at most 500 opening tags of a block in \<^verbatim>\<open>index.js\<close> and at most 50 in
  \<^verbatim>\<open>part_000\<close>: no stored text adds a block of its own.
\<close>

theorem page_holds_at_most_limit_block_markers:
  assumes "http_method req = js ''GET''"
    and "list_all stored_as_strings (orderByTimestampDesc e (docs s))"
  shows "occurrences block_marker (sent (fst (app_index e now req s))) \<le> 500
       \<and> occurrences block_marker (sent (fst (app_part000 e now req s))) \<le> 50"
  using assms
  by (simp add: app_index_GET app_part000_GET get_index_count get_part000_count
      del: occurrences.simps)

theorem page_holds_at_most_limit_block_markers_witness:
  "occurrences block_marker (sent (fst (app_index example_env 0 get_request crowded_store))) \<le> 500
   \<and> occurrences block_marker (sent (fst (app_part000 example_env 0 get_request crowded_store)))
       \<le> 50"
proof -
  have "stored_as_strings \<lparr>doc_id = js ''doc'', doc_data = ada_doc\<rparr>"
    by (simp add: stored_as_strings_def ada_doc_fields)
  then have "list_all stored_as_strings (orderByTimestampDesc example_env (docs crowded_store))"
    by (simp add: crowded_docs example_env_def filter_replicate sort_key_replicate
        ada_doc_fields list_all_iff)
  from page_holds_at_most_limit_block_markers [OF get_request_GET this] show ?thesis .
qed

text \<open>
  The handler keeps names and messages strings: after any request, every stored document
  holds strings if every one did before.
\<close>

lemma submission_stored_as_strings:
  "stored_as_strings \<lparr>doc_id = i, doc_data = submission now name message\<rparr>"
  by (simp add: stored_as_strings_def submission_def get_field_def message_neq_name)

lemma post_keeps_strings:
  assumes "list_all stored_as_strings (docs s)"
  shows "list_all stored_as_strings (docs (snd (post thanks e now req s)))"
  using assms
  by (auto simp: post_def db_add_def submission_stored_as_strings split: sum.splits if_splits)

theorem stored_fields_stay_strings:
  assumes "list_all stored_as_strings (docs s)"
  shows "list_all stored_as_strings (docs (snd (app_index e now req s)))
       \<and> list_all stored_as_strings (docs (snd (app_part000 e now req s)))"
  using assms
  by (simp add: app_index_def app_part000_def post_index_def post_part000_def
      post_keeps_strings get_index_store get_part000_store)

theorem stored_fields_stay_strings_witness:
  "list_all stored_as_strings (docs (snd (app_index example_env 0 ada_post empty_store)))
   \<and> list_all stored_as_strings (docs (snd (app_part000 example_env 0 ada_post empty_store)))"
proof -
  have "list_all stored_as_strings (docs empty_store)"
    by (simp add: empty_store_def)
  from stored_fields_stay_strings [OF this] show ?thesis .
qed

end
